theory Spec2Isabelle
  imports Complex_Main "HOL-Library.Word"
begin

section \<open>Error taxonomy (include/xap/audioio/error.h, src/error.cc)\<close>

text \<open>
  Error codes are \<open>uint16_t\<close> constants. The four codes below are the ones declared in
  the available revision of \<open>error.h\<close>.
\<close>

definition ERROR_PARAMETER :: "16 word" where
  "ERROR_PARAMETER = 5001"

definition ERROR_PORTAUDIOCALL :: "16 word" where
  "ERROR_PORTAUDIOCALL = 5002"

definition ERROR_ALLOC :: "16 word" where
  "ERROR_ALLOC = 5003"

definition ERROR_SYSTEMCALL :: "16 word" where
  "ERROR_SYSTEMCALL = 5004"

text \<open>
  Modelled from the spec: the constants \<open>ERROR_INVALIDOPERATION\<close>, \<open>ERROR_UNSUPPORTED\<close>,
  \<open>ERROR_CALLBACK\<close>, \<open>ERROR_NODEVICE\<close> and \<open>ERROR_UNEXPECTED\<close> are used by
  \<open>recorder.cc\<close>, \<open>player.cc\<close> and \<open>device.cc\<close>, but their declarations are missing from
  the available revision of \<open>error.h\<close>. The spec lists them as further categories of one
  closed taxonomy; they continue the numbering of the declared ones. Only their being
  pairwise distinct, and distinct from the four declared codes, is ever used.
\<close>

definition ERROR_INVALIDOPERATION :: "16 word" where
  "ERROR_INVALIDOPERATION = 5005"

definition ERROR_UNSUPPORTED :: "16 word" where
  "ERROR_UNSUPPORTED = 5006"

definition ERROR_CALLBACK :: "16 word" where
  "ERROR_CALLBACK = 5007"

definition ERROR_NODEVICE :: "16 word" where
  "ERROR_NODEVICE = 5008"

definition ERROR_UNEXPECTED :: "16 word" where
  "ERROR_UNEXPECTED = 5009"

text \<open>
  \<open>class Exception\<close>: the private members \<open>m_message\<close> (a \<open>std::string\<close>) and
  \<open>m_code\<close>. A \<open>const char *\<close> argument is modelled by the characters of the C string
  it points to.
\<close>

record Exception =
  m_message :: string
  m_code :: "16 word"

text \<open>\<open>Exception::Exception(const char *message, const uint16_t code)\<close>\<close>

definition Exception_new :: "string \<Rightarrow> 16 word \<Rightarrow> Exception" where
  "Exception_new message code = \<lparr> m_message = message, m_code = code \<rparr>"

text \<open>\<open>Exception::Exception(const Exception &src)\<close>, the copy constructor.\<close>

definition Exception_copy :: "Exception \<Rightarrow> Exception" where
  "Exception_copy src = \<lparr> m_message = m_message src, m_code = m_code src \<rparr>"

text \<open>\<open>Exception::what()\<close> returns \<open>m_message.c_str()\<close>.\<close>

definition what :: "Exception \<Rightarrow> string" where
  "what this = m_message this"

definition get_code :: "Exception \<Rightarrow> 16 word" where
  "get_code this = m_code this"

section \<open>C++ exceptions and their handlers\<close>

text \<open>
  The objects that the code throws and catches. Every \<open>catch\<close> clause of the repository
  is typed on a class of the \<open>std::exception\<close> hierarchy: \<open>xap::audioio::Exception\<close>,
  the buffer utility's \<open>xap::core::buffer::BufferException\<close>, \<open>std::system_error\<close>,
  \<open>std::bad_alloc\<close>, or \<open>std::exception\<close> itself, which also catches
  \<open>std::bad_function_call\<close> (thrown by calling an empty \<open>std::function\<close>) and any other
  class derived from it. Each of these carries the text of its \<open>what()\<close>.
  \<open>BufferException\<close> is declared by the buffer utility library, outside this
  repository; it is taken to derive from \<open>std::exception\<close>, as
  \<open>xap::audioio::Exception\<close> does. C++ lets a closure throw an object of any type
  (\<open>throw 42;\<close>): \<open>Thrown_other\<close> is such an object, not derived from
  \<open>std::exception\<close>, with a rendering of its value. No handler of the repository
  catches it.
\<close>

datatype thrown =
    Thrown_Exception Exception
  | Thrown_BufferException string
  | Thrown_system_error string
  | Thrown_bad_alloc string
  | Thrown_bad_function_call string
  | Thrown_exception string
  | Thrown_other string

text \<open>Whether a \<open>catch (std::exception &)\<close> clause catches the object.\<close>

fun derives_std_exception :: "thrown \<Rightarrow> bool" where
  "derives_std_exception (Thrown_other obj) = False"
| "derives_std_exception t = True"

text \<open>Whether a \<open>catch (std::system_error &)\<close> clause catches the object.\<close>

fun is_system_error :: "thrown \<Rightarrow> bool" where
  "is_system_error (Thrown_system_error msg) = True"
| "is_system_error t = False"

text \<open>
  \<open>error.what()\<close> through a \<open>std::exception &\<close>. An object that is not derived
  from \<open>std::exception\<close> has no \<open>what()\<close> and reaches no handler that calls it, so
  the function has no equation for it.
\<close>

fun std_what :: "thrown \<Rightarrow> string" where
  "std_what (Thrown_Exception e) = what e"
| "std_what (Thrown_BufferException msg) = msg"
| "std_what (Thrown_system_error msg) = msg"
| "std_what (Thrown_bad_alloc msg) = msg"
| "std_what (Thrown_bad_function_call msg) = msg"
| "std_what (Thrown_exception msg) = msg"

text \<open>
  A \<open>std::mutex\<close> as seen by one \<open>std::lock_guard\<close>: either the lock is taken, or
  \<open>lock()\<close> fails with a \<open>std::system_error\<close> carrying the given text.
\<close>

datatype mutex = Mutex_ok | Mutex_fails string

fun lock_guard :: "mutex \<Rightarrow> thrown + unit" where
  "lock_guard Mutex_ok = Inr ()"
| "lock_guard (Mutex_fails msg) = Inl (Thrown_system_error msg)"

text \<open>
  A \<open>std::function\<close> member is empty (\<open>None\<close>) or holds a closure. A closure is a
  function from its argument to what the call does: it throws (\<open>Inl\<close>) or returns
  (\<open>Inr\<close>). Calling an empty \<open>std::function\<close> throws \<open>std::bad_function_call\<close>, whose
  \<open>what()\<close> text is fixed by the C++ library in use.
\<close>

definition bad_function_call_what :: string where
  "bad_function_call_what = ''bad_function_call''"

fun invoke :: "('a \<Rightarrow> thrown + 'b) option \<Rightarrow> 'a \<Rightarrow> thrown + 'b" where
  "invoke None x = Inl (Thrown_bad_function_call bad_function_call_what)"
| "invoke (Some f) x = f x"

section \<open>The PortAudio backend\<close>

text \<open>
  The backend is an external collaborator: the model takes what each of its calls
  answers as given. \<open>PaError\<close>, \<open>PaDeviceIndex\<close> and \<open>int\<close> are C \<open>int\<close>s; no
  arithmetic that could overflow is done on them. \<open>PaTime\<close> and \<open>double\<close> values are
  only ever copied.
\<close>

type_synonym PaError = int
type_synonym PaTime = real
type_synonym PaStream = nat

definition paNoError :: PaError where
  "paNoError = 0"

definition paNoDevice :: int where
  "paNoDevice = - 1"

definition paContinue :: int where
  "paContinue = 0"

record PaDeviceInfo =
  name :: string
  maxInputChannels :: int
  maxOutputChannels :: int
  defaultLowInputLatency :: PaTime
  defaultLowOutputLatency :: PaTime
  defaultHighInputLatency :: PaTime
  defaultHighOutputLatency :: PaTime

record PaStreamParameters =
  device :: "32 word"
  channelCount :: "32 word"
  suggestedLatency :: PaTime

text \<open>
  The answers of the backend. \<open>Pa_GetDeviceInfo\<close> returns \<open>None\<close> for a null pointer.
  \<open>Pa_IsFormatSupported\<close> takes the input parameters, the output parameters (each
  possibly null) and the sample rate. \<open>Pa_OpenStream\<close> answers an error code and the
  handle it stores through its first argument; a \<open>PaStream *\<close> is an opaque handle.
  The sample format is always \<open>paInt16\<close> and
  \<open>hostApiSpecificStreamInfo\<close> always null, so they are not fields of
  \<open>PaStreamParameters\<close> here.
\<close>

record PortAudio =
  Pa_Initialize :: PaError
  Pa_GetErrorText :: "PaError \<Rightarrow> string"
  Pa_GetDeviceCount :: int
  Pa_GetDefaultInputDevice :: int
  Pa_GetDefaultOutputDevice :: int
  Pa_GetDeviceInfo :: "int \<Rightarrow> PaDeviceInfo option"
  Pa_IsFormatSupported ::
    "PaStreamParameters option \<Rightarrow> PaStreamParameters option \<Rightarrow> real \<Rightarrow> PaError"
  Pa_OpenStream :: "PaError \<times> PaStream"
  Pa_StartStream :: "PaStream \<Rightarrow> PaError"
  Pa_StopStream :: "PaStream \<Rightarrow> PaError"
  Pa_AbortStream :: "PaStream \<Rightarrow> PaError"

text \<open>The backend calls that an operation made, in order.\<close>

datatype pa_call =
    Call_Initialize
  | Call_IsFormatSupported
  | Call_OpenStream
  | Call_StartStream
  | Call_StopStream
  | Call_AbortStream

text \<open>\<open>void pacall_assert(const PaError &error)\<close> of \<open>error.cc\<close>.\<close>

definition pacall_assert :: "PortAudio \<Rightarrow> PaError \<Rightarrow> thrown + unit" where
  "pacall_assert pa error =
     (if error \<noteq> paNoError
      then Inl (Thrown_Exception
                 (Exception_new (Pa_GetErrorText pa error) ERROR_PORTAUDIOCALL))
      else Inr ())"

section \<open>Device enumeration (include/xap/audioio/device.h, src/device.cc)\<close>

text \<open>
  \<open>struct InputDevice_\<close> and \<open>struct OutputDevice_\<close>. The field \<open>defalut_high_latency\<close>
  is spelled as in the header. \<open>device_id\<close> is an \<open>int64_t\<close> that only ever receives a
  C \<open>int\<close>.
\<close>

record InputDevice =
  device_id :: int
  name :: string
  default_low_latency :: real
  defalut_high_latency :: real
  is_default :: bool

record OutputDevice =
  device_id :: int
  name :: string
  default_low_latency :: real
  defalut_high_latency :: real
  is_default :: bool

text \<open>The two per-direction mutexes of a \<open>DeviceManager\<close>.\<close>

record DeviceManager =
  m_input_device_lock :: mutex
  m_output_device_lock :: mutex

text \<open>
  The handlers shared by the four loading methods: \<open>std::system_error\<close> becomes an
  \<open>ERROR_SYSTEMCALL\<close> exception, \<open>std::bad_alloc\<close> an \<open>ERROR_ALLOC\<close> one, and anything
  else leaves the method as it is.
\<close>

fun device_catch :: "thrown \<Rightarrow> thrown" where
  "device_catch (Thrown_system_error msg) =
     Thrown_Exception (Exception_new msg ERROR_SYSTEMCALL)"
| "device_catch (Thrown_bad_alloc msg) =
     Thrown_Exception (Exception_new msg ERROR_ALLOC)"
| "device_catch t = t"

text \<open>
  The \<open>for\<close> loop of \<open>load_all_input_devices\<close>, from index \<open>i\<close> on, with the vector
  \<open>rst\<close> built so far. Copying the name and \<open>push_back\<close> allocate; \<open>heap i\<close> tells whether
  the allocations for device \<open>i\<close> fail with \<open>std::bad_alloc\<close>, and with which text.
\<close>

function load_all_input_devices_loop ::
  "PortAudio \<Rightarrow> (int \<Rightarrow> string option) \<Rightarrow> int \<Rightarrow> int \<Rightarrow> int \<Rightarrow> InputDevice list
     \<Rightarrow> thrown + InputDevice list"
where
  "load_all_input_devices_loop pa heap devices_count default_device i rst =
     (if i < devices_count then
        (case Pa_GetDeviceInfo pa i of
           None \<Rightarrow>
             load_all_input_devices_loop pa heap devices_count default_device (i + 1) rst
         | Some info \<Rightarrow>
             if maxInputChannels info = 0 then
               load_all_input_devices_loop pa heap devices_count default_device (i + 1) rst
             else
               (case heap i of
                  Some msg \<Rightarrow> Inl (Thrown_bad_alloc msg)
                | None \<Rightarrow>
                    load_all_input_devices_loop pa heap devices_count default_device (i + 1)
                      (rst @ [\<lparr> InputDevice.device_id = i,
                                InputDevice.name = PaDeviceInfo.name info,
                                InputDevice.default_low_latency = defaultLowOutputLatency info,
                                InputDevice.defalut_high_latency = defaultHighOutputLatency info,
                                InputDevice.is_default = (i = default_device) \<rparr>])))
      else Inr rst)"
  by pat_completeness auto
termination
  by (relation "measure (\<lambda>(pa, heap, devices_count, default_device, i, rst).
        nat (devices_count - i))") auto

definition load_all_input_devices ::
  "DeviceManager \<Rightarrow> PortAudio \<Rightarrow> (int \<Rightarrow> string option) \<Rightarrow> thrown + InputDevice list"
where
  "load_all_input_devices this pa heap =
     map_sum device_catch id
       (case lock_guard (m_input_device_lock this) of
          Inl t \<Rightarrow> Inl t
        | Inr _ \<Rightarrow>
            let devices_count = Pa_GetDeviceCount pa in
            if devices_count < 0 then
              Inl (Thrown_Exception
                    (Exception_new (Pa_GetErrorText pa devices_count) ERROR_PORTAUDIOCALL))
            else
              let default_device = Pa_GetDefaultInputDevice pa in
              if default_device < paNoDevice then
                Inl (Thrown_Exception
                      (Exception_new (Pa_GetErrorText pa default_device) ERROR_PORTAUDIOCALL))
              else load_all_input_devices_loop pa heap devices_count default_device 0 [])"

function load_all_output_devices_loop ::
  "PortAudio \<Rightarrow> (int \<Rightarrow> string option) \<Rightarrow> int \<Rightarrow> int \<Rightarrow> int \<Rightarrow> OutputDevice list
     \<Rightarrow> thrown + OutputDevice list"
where
  "load_all_output_devices_loop pa heap devices_count default_device i rst =
     (if i < devices_count then
        (case Pa_GetDeviceInfo pa i of
           None \<Rightarrow>
             load_all_output_devices_loop pa heap devices_count default_device (i + 1) rst
         | Some info \<Rightarrow>
             if maxOutputChannels info = 0 then
               load_all_output_devices_loop pa heap devices_count default_device (i + 1) rst
             else
               (case heap i of
                  Some msg \<Rightarrow> Inl (Thrown_bad_alloc msg)
                | None \<Rightarrow>
                    load_all_output_devices_loop pa heap devices_count default_device (i + 1)
                      (rst @ [\<lparr> OutputDevice.device_id = i,
                                OutputDevice.name = PaDeviceInfo.name info,
                                OutputDevice.default_low_latency = defaultLowOutputLatency info,
                                OutputDevice.defalut_high_latency = defaultHighOutputLatency info,
                                OutputDevice.is_default = (i = default_device) \<rparr>])))
      else Inr rst)"
  by pat_completeness auto
termination
  by (relation "measure (\<lambda>(pa, heap, devices_count, default_device, i, rst).
        nat (devices_count - i))") auto

definition load_all_output_devices ::
  "DeviceManager \<Rightarrow> PortAudio \<Rightarrow> (int \<Rightarrow> string option) \<Rightarrow> thrown + OutputDevice list"
where
  "load_all_output_devices this pa heap =
     map_sum device_catch id
       (case lock_guard (m_output_device_lock this) of
          Inl t \<Rightarrow> Inl t
        | Inr _ \<Rightarrow>
            let devices_count = Pa_GetDeviceCount pa in
            if devices_count < 0 then
              Inl (Thrown_Exception
                    (Exception_new (Pa_GetErrorText pa devices_count) ERROR_PORTAUDIOCALL))
            else
              let default_device = Pa_GetDefaultOutputDevice pa in
              if default_device < paNoDevice then
                Inl (Thrown_Exception
                      (Exception_new (Pa_GetErrorText pa default_device) ERROR_PORTAUDIOCALL))
              else load_all_output_devices_loop pa heap devices_count default_device 0 [])"

text \<open>
  \<open>load_default_input_device\<close>. Copying the name allocates; \<open>heap\<close> is asked at the
  index of the default device.
\<close>

definition load_default_input_device ::
  "DeviceManager \<Rightarrow> PortAudio \<Rightarrow> (int \<Rightarrow> string option) \<Rightarrow> thrown + InputDevice"
where
  "load_default_input_device this pa heap =
     map_sum device_catch id
       (case lock_guard (m_input_device_lock this) of
          Inl t \<Rightarrow> Inl t
        | Inr _ \<Rightarrow>
            let default_device = Pa_GetDefaultInputDevice pa in
            if default_device = paNoDevice then
              Inl (Thrown_Exception
                    (Exception_new ''There is no default input device.'' ERROR_NODEVICE))
            else
              (case Pa_GetDeviceInfo pa default_device of
                 None \<Rightarrow>
                   Inl (Thrown_Exception
                         (Exception_new ''Cannot get default output device info.''
                            ERROR_PORTAUDIOCALL))
               | Some info \<Rightarrow>
                   (case heap default_device of
                      Some msg \<Rightarrow> Inl (Thrown_bad_alloc msg)
                    | None \<Rightarrow>
                        Inr \<lparr> InputDevice.device_id = default_device,
                              InputDevice.name = PaDeviceInfo.name info,
                              InputDevice.default_low_latency = defaultLowInputLatency info,
                              InputDevice.defalut_high_latency = defaultHighInputLatency info,
                              InputDevice.is_default = True \<rparr>)))"

definition load_default_output_device ::
  "DeviceManager \<Rightarrow> PortAudio \<Rightarrow> (int \<Rightarrow> string option) \<Rightarrow> thrown + OutputDevice"
where
  "load_default_output_device this pa heap =
     map_sum device_catch id
       (case lock_guard (m_output_device_lock this) of
          Inl t \<Rightarrow> Inl t
        | Inr _ \<Rightarrow>
            let default_device = Pa_GetDefaultOutputDevice pa in
            if default_device = paNoDevice then
              Inl (Thrown_Exception
                    (Exception_new ''There is no default output device.'' ERROR_NODEVICE))
            else
              (case Pa_GetDeviceInfo pa default_device of
                 None \<Rightarrow>
                   Inl (Thrown_Exception
                         (Exception_new ''Cannot get default output device info.''
                            ERROR_PORTAUDIOCALL))
               | Some info \<Rightarrow>
                   (case heap default_device of
                      Some msg \<Rightarrow> Inl (Thrown_bad_alloc msg)
                    | None \<Rightarrow>
                        Inr \<lparr> OutputDevice.device_id = default_device,
                              OutputDevice.name = PaDeviceInfo.name info,
                              OutputDevice.default_low_latency = defaultLowOutputLatency info,
                              OutputDevice.defalut_high_latency = defaultHighOutputLatency info,
                              OutputDevice.is_default = True \<rparr>)))"

section \<open>The buffer utility\<close>

text \<open>
  \<open>xap::core::buffer::Buffer\<close> belongs to the buffer utility library, an external
  collaborator: a byte buffer that owns its bytes. Raw memory behind a pointer is a
  function from the offset to the byte stored there. \<open>buffer_env\<close> holds what the
  library does in one callback cycle: whether constructing a buffer throws, and the
  bytes found in freshly allocated storage.
\<close>

type_synonym byte = "8 word"
type_synonym Buffer = "byte list"

record buffer_env =
  construct_throws :: "thrown option"
  fresh_bytes :: "nat \<Rightarrow> byte"

text \<open>\<open>Buffer(const uint8_t *pointer, size_t length)\<close>: an owned copy of \<open>length\<close> bytes.\<close>

definition Buffer_copy_of :: "buffer_env \<Rightarrow> (nat \<Rightarrow> byte) \<Rightarrow> nat \<Rightarrow> thrown + Buffer" where
  "Buffer_copy_of env pointer len =
     (case construct_throws env of
        Some t \<Rightarrow> Inl t
      | None \<Rightarrow> Inr (map pointer [0..<len]))"

text \<open>\<open>Buffer(size_t length, bool)\<close>: a buffer of \<open>length\<close> bytes.\<close>

definition Buffer_sized :: "buffer_env \<Rightarrow> nat \<Rightarrow> thrown + Buffer" where
  "Buffer_sized env len =
     (case construct_throws env of
        Some t \<Rightarrow> Inl t
      | None \<Rightarrow> Inr (map (fresh_bytes env) [0..<len]))"

text \<open>
  \<open>memcpy(dst, src.get_pointer(), n)\<close>. Reading more bytes than the source buffer
  owns is undefined behaviour: \<open>None\<close>.
\<close>

definition memcpy :: "(nat \<Rightarrow> byte) \<Rightarrow> Buffer \<Rightarrow> nat \<Rightarrow> (nat \<Rightarrow> byte) option" where
  "memcpy dst src n =
     (if n \<le> length src then Some (\<lambda>i. if i < n then src ! i else dst i) else None)"

section \<open>What one callback cycle does\<close>

text \<open>
  The observable outcome of one call of a trampoline by the backend: \<open>returned\<close> is
  the status given back (\<open>Inr\<close>), or the exception that leaves the trampoline and
  reaches the backend (\<open>Inl\<close>); \<open>audio\<close> lists the buffers passed to
  \<open>emit_audio_callback\<close>, \<open>emitted\<close> the exceptions passed to \<open>emit_error_callback\<close>.
  For playback, \<open>output_region\<close> is the memory behind \<open>output_buffer\<close> after the call
  (\<open>None\<close> after undefined behaviour).
\<close>

record cycle =
  returned :: "thrown + int"
  audio :: "Buffer list"
  emitted :: "Exception list"

record play_cycle = cycle +
  output_region :: "(nat \<Rightarrow> byte) option"

text \<open>
  The handlers of the four \<open>emit_*_callback\<close> methods, in their order:
  \<open>catch (std::system_error &)\<close> rethrows as \<open>ERROR_SYSTEMCALL\<close>, then
  \<open>catch (std::exception &)\<close> rethrows every other object derived from
  \<open>std::exception\<close> as \<open>ERROR_CALLBACK\<close>. There is no \<open>catch (...)\<close>: an object of
  another type matches neither handler and leaves the method as it is.
\<close>

fun emit_catch :: "thrown \<Rightarrow> thrown" where
  "emit_catch (Thrown_system_error msg) =
     Thrown_Exception (Exception_new msg ERROR_SYSTEMCALL)"
| "emit_catch (Thrown_other obj) = Thrown_other obj"
| "emit_catch t = Thrown_Exception (Exception_new (std_what t) ERROR_CALLBACK)"

text \<open>
  The handler of the four \<open>set_*_callback\<close> methods, \<open>catch (std::system_error &)\<close>.
\<close>

fun set_catch :: "thrown \<Rightarrow> thrown" where
  "set_catch (Thrown_system_error msg) =
     Thrown_Exception (Exception_new msg ERROR_SYSTEMCALL)"
| "set_catch t = t"

text \<open>\<open>try { ... } catch (xap::audioio::Exception &) { /* Do nothing. */ }\<close>\<close>

fun catch_Exception_do_nothing :: "thrown + unit \<Rightarrow> thrown + unit" where
  "catch_Exception_do_nothing (Inl (Thrown_Exception e)) = Inr ()"
| "catch_Exception_do_nothing r = r"

section \<open>Recorder (include/xap/audioio/recorder.h, src/recorder_p.h, src/recorder.cc)\<close>

record RecorderOptions =
  device :: InputDevice
  channel_count :: "8 word"
  sample_rate :: "16 word"
  suggested_latency :: real
  frame_pre_buffer :: "64 word"

record Recorder =
  m_audio_callback :: "(Buffer \<Rightarrow> thrown + unit) option"
  m_audio_callback_lock :: mutex
  m_error_callback :: "(Exception \<Rightarrow> thrown + unit) option"
  m_error_callback_lock :: mutex
  m_options :: RecorderOptions
  m_pa_parameters :: PaStreamParameters
  m_stream :: PaStream
  m_is_running :: bool

text \<open>
  \<open>Recorder::Recorder(const RecorderOptions &options)\<close>, with the backend calls it
  made. \<open>static_cast<int>\<close> keeps the low 32 bits of the device id and widens the
  channel count.
\<close>

definition Recorder_ctor ::
  "PortAudio \<Rightarrow> RecorderOptions \<Rightarrow> (thrown + Recorder) \<times> pa_call list"
where
  "Recorder_ctor pa options =
     (case pacall_assert pa (Pa_Initialize pa) of
        Inl t \<Rightarrow> (Inl t, [Call_Initialize])
      | Inr _ \<Rightarrow>
          let parameters =
                \<lparr> PaStreamParameters.device =
                    word_of_int (InputDevice.device_id (RecorderOptions.device options)),
                  channelCount = ucast (RecorderOptions.channel_count options),
                  suggestedLatency = RecorderOptions.suggested_latency options \<rparr>;
              error = Pa_IsFormatSupported pa (Some parameters) None
                        (real (unat (RecorderOptions.sample_rate options)))
          in
            if error \<noteq> paNoError then
              (Inl (Thrown_Exception (Exception_new (Pa_GetErrorText pa error) ERROR_UNSUPPORTED)),
               [Call_Initialize, Call_IsFormatSupported])
            else
              (case pacall_assert pa (fst (Pa_OpenStream pa)) of
                 Inl t \<Rightarrow> (Inl t, [Call_Initialize, Call_IsFormatSupported, Call_OpenStream])
               | Inr _ \<Rightarrow>
                   (Inr \<lparr> m_audio_callback = None,
                          m_audio_callback_lock = Mutex_ok,
                          m_error_callback = None,
                          m_error_callback_lock = Mutex_ok,
                          m_options = options,
                          m_pa_parameters = parameters,
                          m_stream = snd (Pa_OpenStream pa),
                          m_is_running = False \<rparr>,
                    [Call_Initialize, Call_IsFormatSupported, Call_OpenStream])))"

text \<open>\<open>Recorder::start()\<close>: what the call does, and the object after it.\<close>

definition Recorder_start :: "PortAudio \<Rightarrow> Recorder \<Rightarrow> (thrown + unit) \<times> Recorder" where
  "Recorder_start pa this =
     (if m_is_running this then
        (Inl (Thrown_Exception
               (Exception_new ''The recorder was already running.'' ERROR_INVALIDOPERATION)),
         this)
      else
        (case pacall_assert pa (Pa_StartStream pa (m_stream this)) of
           Inl t \<Rightarrow> (Inl t, this)
         | Inr _ \<Rightarrow> (Inr (), this\<lparr> m_is_running := True \<rparr>)))"

text \<open>\<open>Recorder::set_audio_callback\<close> and \<open>Recorder::set_error_callback\<close>.\<close>

definition Recorder_set_audio_callback ::
  "Recorder \<Rightarrow> (Buffer \<Rightarrow> thrown + unit) option \<Rightarrow> (thrown + unit) \<times> Recorder"
where
  "Recorder_set_audio_callback this callback =
     (case lock_guard (m_audio_callback_lock this) of
        Inl t \<Rightarrow> (Inl (set_catch t), this)
      | Inr _ \<Rightarrow> (Inr (), this\<lparr> m_audio_callback := callback \<rparr>))"

definition Recorder_set_error_callback ::
  "Recorder \<Rightarrow> (Exception \<Rightarrow> thrown + unit) option \<Rightarrow> (thrown + unit) \<times> Recorder"
where
  "Recorder_set_error_callback this callback =
     (case lock_guard (m_error_callback_lock this) of
        Inl t \<Rightarrow> (Inl (set_catch t), this)
      | Inr _ \<Rightarrow> (Inr (), this\<lparr> m_error_callback := callback \<rparr>))"

text \<open>\<open>Recorder::stop(bool forcibly)\<close>\<close>

definition Recorder_stop :: "PortAudio \<Rightarrow> Recorder \<Rightarrow> bool \<Rightarrow> (thrown + unit) \<times> Recorder" where
  "Recorder_stop pa this forcibly =
     (if \<not> m_is_running this then
        (Inl (Thrown_Exception
               (Exception_new ''The recorder is not running.'' ERROR_INVALIDOPERATION)),
         this)
      else
        (case (if forcibly then pacall_assert pa (Pa_AbortStream pa (m_stream this))
               else pacall_assert pa (Pa_StopStream pa (m_stream this))) of
           Inl t \<Rightarrow> (Inl t, this)
         | Inr _ \<Rightarrow> (Inr (), this\<lparr> m_is_running := False \<rparr>)))"

text \<open>\<open>Recorder::emit_audio_callback\<close> and \<open>Recorder::emit_error_callback\<close>.\<close>

definition Recorder_emit_audio_callback :: "Recorder \<Rightarrow> Buffer \<Rightarrow> thrown + unit" where
  "Recorder_emit_audio_callback this data =
     map_sum emit_catch id
       (case lock_guard (m_audio_callback_lock this) of
          Inl t \<Rightarrow> Inl t
        | Inr _ \<Rightarrow> invoke (m_audio_callback this) data)"

definition Recorder_emit_error_callback :: "Recorder \<Rightarrow> Exception \<Rightarrow> thrown + unit" where
  "Recorder_emit_error_callback this error =
     map_sum emit_catch id
       (case lock_guard (m_error_callback_lock this) of
          Inl t \<Rightarrow> Inl t
        | Inr _ \<Rightarrow> invoke (m_error_callback this) error)"

text \<open>
  \<open>new xap::audioio::Recorder(options)\<close>: \<open>heap\<close> tells whether \<open>operator new\<close> fails
  with \<open>std::bad_alloc\<close>; if it does not, the constructor runs.
\<close>

definition new_Recorder ::
  "string option \<Rightarrow> PortAudio \<Rightarrow> RecorderOptions \<Rightarrow> (thrown + Recorder) \<times> pa_call list"
where
  "new_Recorder heap pa options =
     (case heap of
        Some msg \<Rightarrow> (Inl (Thrown_bad_alloc msg), [])
      | None \<Rightarrow> Recorder_ctor pa options)"

text \<open>The handler \<open>catch (std::bad_alloc &)\<close> of the factories.\<close>

fun catch_bad_alloc :: "thrown \<Rightarrow> thrown" where
  "catch_bad_alloc (Thrown_bad_alloc msg) = Thrown_Exception (Exception_new msg ERROR_ALLOC)"
| "catch_bad_alloc t = t"

text \<open>
  The handler of \<open>RecorderFactory::load_unique_pointer\<close>, which is
  \<open>catch (xap::audioio::Exception &error)\<close>.
\<close>

fun catch_Exception_as_alloc :: "thrown \<Rightarrow> thrown" where
  "catch_Exception_as_alloc (Thrown_Exception error) =
     Thrown_Exception (Exception_new (what error) ERROR_ALLOC)"
| "catch_Exception_as_alloc t = t"

definition RecorderFactory_load_unique_pointer ::
  "string option \<Rightarrow> PortAudio \<Rightarrow> RecorderOptions \<Rightarrow> (thrown + Recorder) \<times> pa_call list"
where
  "RecorderFactory_load_unique_pointer heap pa options =
     map_prod (map_sum catch_Exception_as_alloc id) id (new_Recorder heap pa options)"

definition RecorderFactory_load_shared_pointer ::
  "string option \<Rightarrow> PortAudio \<Rightarrow> RecorderOptions \<Rightarrow> (thrown + Recorder) \<times> pa_call list"
where
  "RecorderFactory_load_shared_pointer heap pa options =
     map_prod (map_sum catch_bad_alloc id) id (new_Recorder heap pa options)"

definition RecorderFactory_new_instance ::
  "string option \<Rightarrow> PortAudio \<Rightarrow> RecorderOptions \<Rightarrow> (thrown + Recorder) \<times> pa_call list"
where
  "RecorderFactory_new_instance heap pa options =
     map_prod (map_sum catch_bad_alloc id) id (new_Recorder heap pa options)"

text \<open>
  \<open>xap_pa_record_callback\<close>, the capture trampoline. \<open>user_data\<close> is the recorder;
  \<open>output_buffer\<close>, \<open>time_info\<close> and \<open>status_flags\<close> are not used by the code.
  \<open>frames_per_buffer\<close> is an \<open>unsigned long\<close> and the product a \<open>size_t\<close>, both of 64
  bits. The handler for \<open>BufferException\<close> calls \<open>emit_error_callback\<close> outside any
  \<open>try\<close>; the two other handlers call it inside one. The last handler is
  \<open>catch (std::exception &)\<close>: an object of another type leaves the trampoline.
\<close>

definition xap_pa_record_callback ::
  "buffer_env \<Rightarrow> (nat \<Rightarrow> byte) \<Rightarrow> 64 word \<Rightarrow> Recorder \<Rightarrow> cycle"
where
  "xap_pa_record_callback env input_buffer frames_per_buffer recorder =
     (let try_block =
            (case Buffer_copy_of env input_buffer (unat (frames_per_buffer * 2)) of
               Inl t \<Rightarrow> (Inl t, [])
             | Inr audio_data \<Rightarrow>
                 (Recorder_emit_audio_callback recorder audio_data, [audio_data]))
      in
        case fst try_block of
          Inr _ \<Rightarrow> \<lparr> returned = Inr paContinue, audio = snd try_block, emitted = [] \<rparr>
        | Inl (Thrown_BufferException msg) \<Rightarrow>
            (let error = Exception_new msg ERROR_ALLOC in
             case Recorder_emit_error_callback recorder error of
               Inl t \<Rightarrow> \<lparr> returned = Inl t, audio = snd try_block, emitted = [error] \<rparr>
             | Inr _ \<Rightarrow>
                 \<lparr> returned = Inr paContinue, audio = snd try_block, emitted = [error] \<rparr>)
        | Inl (Thrown_Exception error) \<Rightarrow>
            (case catch_Exception_do_nothing (Recorder_emit_error_callback recorder error) of
               Inl t \<Rightarrow> \<lparr> returned = Inl t, audio = snd try_block, emitted = [error] \<rparr>
             | Inr _ \<Rightarrow>
                 \<lparr> returned = Inr paContinue, audio = snd try_block, emitted = [error] \<rparr>)
        | Inl (Thrown_other obj) \<Rightarrow>
            \<lparr> returned = Inl (Thrown_other obj), audio = snd try_block, emitted = [] \<rparr>
        | Inl t \<Rightarrow>
            (let error = Exception_new (std_what t) ERROR_UNEXPECTED in
             case catch_Exception_do_nothing (Recorder_emit_error_callback recorder error) of
               Inl t' \<Rightarrow> \<lparr> returned = Inl t', audio = snd try_block, emitted = [error] \<rparr>
             | Inr _ \<Rightarrow>
                 \<lparr> returned = Inr paContinue, audio = snd try_block, emitted = [error] \<rparr>))"

section \<open>Player (include/xap/audioio/player.h, src/player_p.h, src/player.cc)\<close>

text \<open>\<open>struct PlayerOptions_\<close>; its padding members are never read.\<close>

record PlayerOptions =
  device :: OutputDevice
  channel_count :: "8 word"
  sample_rate :: "16 word"
  suggested_latency :: real
  frame_pre_buffer :: "64 word"

text \<open>
  \<open>class Player\<close>. Its audio closure receives the buffer by reference and fills it:
  it returns the buffer as it is after the call.
\<close>

record Player =
  m_audio_callback :: "(Buffer \<Rightarrow> thrown + Buffer) option"
  m_audio_callback_lock :: mutex
  m_error_callback :: "(Exception \<Rightarrow> thrown + unit) option"
  m_error_callback_lock :: mutex
  m_options :: PlayerOptions
  m_stream :: PaStream
  m_is_running :: bool

text \<open>\<open>Player::Player(const PlayerOptions &options)\<close>, with the backend calls it made.\<close>

definition Player_ctor ::
  "PortAudio \<Rightarrow> PlayerOptions \<Rightarrow> (thrown + Player) \<times> pa_call list"
where
  "Player_ctor pa options =
     (case pacall_assert pa (Pa_Initialize pa) of
        Inl t \<Rightarrow> (Inl t, [Call_Initialize])
      | Inr _ \<Rightarrow>
          let stream_parameters =
                \<lparr> PaStreamParameters.device =
                    word_of_int (OutputDevice.device_id (PlayerOptions.device options)),
                  channelCount = ucast (PlayerOptions.channel_count options),
                  suggestedLatency = PlayerOptions.suggested_latency options \<rparr>;
              error = Pa_IsFormatSupported pa None (Some stream_parameters)
                        (real (unat (PlayerOptions.sample_rate options)))
          in
            if error \<noteq> paNoError then
              (Inl (Thrown_Exception (Exception_new (Pa_GetErrorText pa error) ERROR_UNSUPPORTED)),
               [Call_Initialize, Call_IsFormatSupported])
            else
              (case pacall_assert pa (fst (Pa_OpenStream pa)) of
                 Inl t \<Rightarrow> (Inl t, [Call_Initialize, Call_IsFormatSupported, Call_OpenStream])
               | Inr _ \<Rightarrow>
                   (Inr \<lparr> m_audio_callback = None,
                          m_audio_callback_lock = Mutex_ok,
                          m_error_callback = None,
                          m_error_callback_lock = Mutex_ok,
                          m_options = options,
                          m_stream = snd (Pa_OpenStream pa),
                          m_is_running = False \<rparr>,
                    [Call_Initialize, Call_IsFormatSupported, Call_OpenStream])))"

text \<open>\<open>Player::start()\<close>\<close>

definition Player_start :: "PortAudio \<Rightarrow> Player \<Rightarrow> (thrown + unit) \<times> Player" where
  "Player_start pa this =
     (if m_is_running this then
        (Inl (Thrown_Exception
               (Exception_new ''The player was already running.'' ERROR_INVALIDOPERATION)),
         this)
      else
        (case pacall_assert pa (Pa_StartStream pa (m_stream this)) of
           Inl t \<Rightarrow> (Inl t, this)
         | Inr _ \<Rightarrow> (Inr (), this\<lparr> m_is_running := True \<rparr>)))"

text \<open>\<open>Player::set_audio_callback\<close> and \<open>Player::set_error_callback\<close>.\<close>

definition Player_set_audio_callback ::
  "Player \<Rightarrow> (Buffer \<Rightarrow> thrown + Buffer) option \<Rightarrow> (thrown + unit) \<times> Player"
where
  "Player_set_audio_callback this callback =
     (case lock_guard (m_audio_callback_lock this) of
        Inl t \<Rightarrow> (Inl (set_catch t), this)
      | Inr _ \<Rightarrow> (Inr (), this\<lparr> m_audio_callback := callback \<rparr>))"

definition Player_set_error_callback ::
  "Player \<Rightarrow> (Exception \<Rightarrow> thrown + unit) option \<Rightarrow> (thrown + unit) \<times> Player"
where
  "Player_set_error_callback this callback =
     (case lock_guard (m_error_callback_lock this) of
        Inl t \<Rightarrow> (Inl (set_catch t), this)
      | Inr _ \<Rightarrow> (Inr (), this\<lparr> m_error_callback := callback \<rparr>))"

text \<open>\<open>Player::stop(bool forcibly)\<close>\<close>

definition Player_stop :: "PortAudio \<Rightarrow> Player \<Rightarrow> bool \<Rightarrow> (thrown + unit) \<times> Player" where
  "Player_stop pa this forcibly =
     (if \<not> m_is_running this then
        (Inl (Thrown_Exception
               (Exception_new ''The player is not running.'' ERROR_INVALIDOPERATION)),
         this)
      else
        (case (if forcibly then pacall_assert pa (Pa_AbortStream pa (m_stream this))
               else pacall_assert pa (Pa_StopStream pa (m_stream this))) of
           Inl t \<Rightarrow> (Inl t, this)
         | Inr _ \<Rightarrow> (Inr (), this\<lparr> m_is_running := False \<rparr>)))"

text \<open>
  \<open>Player::emit_audio_callback(Buffer &data)\<close> returns the buffer as the closure left
  it; \<open>Player::emit_error_callback\<close>.
\<close>

definition Player_emit_audio_callback :: "Player \<Rightarrow> Buffer \<Rightarrow> thrown + Buffer" where
  "Player_emit_audio_callback this data =
     map_sum emit_catch id
       (case lock_guard (m_audio_callback_lock this) of
          Inl t \<Rightarrow> Inl t
        | Inr _ \<Rightarrow> invoke (m_audio_callback this) data)"

definition Player_emit_error_callback :: "Player \<Rightarrow> Exception \<Rightarrow> thrown + unit" where
  "Player_emit_error_callback this e =
     map_sum emit_catch id
       (case lock_guard (m_error_callback_lock this) of
          Inl t \<Rightarrow> Inl t
        | Inr _ \<Rightarrow> invoke (m_error_callback this) e)"

text \<open>\<open>new xap::audioio::Player(options)\<close> and the three loading methods of the factory.\<close>

definition new_Player ::
  "string option \<Rightarrow> PortAudio \<Rightarrow> PlayerOptions \<Rightarrow> (thrown + Player) \<times> pa_call list"
where
  "new_Player heap pa options =
     (case heap of
        Some msg \<Rightarrow> (Inl (Thrown_bad_alloc msg), [])
      | None \<Rightarrow> Player_ctor pa options)"

definition PlayerFactory_load_unique_pointer ::
  "string option \<Rightarrow> PortAudio \<Rightarrow> PlayerOptions \<Rightarrow> (thrown + Player) \<times> pa_call list"
where
  "PlayerFactory_load_unique_pointer heap pa options =
     map_prod (map_sum catch_bad_alloc id) id (new_Player heap pa options)"

definition PlayerFactory_load_shared_pointer ::
  "string option \<Rightarrow> PortAudio \<Rightarrow> PlayerOptions \<Rightarrow> (thrown + Player) \<times> pa_call list"
where
  "PlayerFactory_load_shared_pointer heap pa options =
     map_prod (map_sum catch_bad_alloc id) id (new_Player heap pa options)"

definition PlayerFactory_new_instance ::
  "string option \<Rightarrow> PortAudio \<Rightarrow> PlayerOptions \<Rightarrow> (thrown + Player) \<times> pa_call list"
where
  "PlayerFactory_new_instance heap pa options =
     map_prod (map_sum catch_bad_alloc id) id (new_Player heap pa options)"

text \<open>
  \<open>xap_pa_play_callback\<close>, the playback trampoline. \<open>user_data\<close> is the player;
  \<open>input_buffer\<close>, \<open>time_info\<close> and \<open>status_flags\<close> are not used by the code. The
  \<open>try\<close> block stages a buffer, lets the closure fill it and copies it to the output
  region; it has handlers for \<open>BufferException\<close> and \<open>xap::audioio::Exception\<close> only,
  so any other exception leaves the trampoline.
\<close>

definition xap_pa_play_callback ::
  "buffer_env \<Rightarrow> (nat \<Rightarrow> byte) \<Rightarrow> 64 word \<Rightarrow> Player \<Rightarrow> play_cycle"
where
  "xap_pa_play_callback env output_buffer frames_per_buffer player =
     (let datalen = unat (frames_per_buffer * 2);
          try_block =
            (case Buffer_sized env datalen of
               Inl t \<Rightarrow> (Inl t, [], Some output_buffer)
             | Inr data \<Rightarrow>
                 (case Player_emit_audio_callback player data of
                    Inl t \<Rightarrow> (Inl t, [data], Some output_buffer)
                  | Inr filled \<Rightarrow> (Inr (), [data], memcpy output_buffer filled datalen)));
          staged = fst (snd try_block);
          region = snd (snd try_block)
      in
        case fst try_block of
          Inr _ \<Rightarrow>
            \<lparr> returned = Inr paContinue, audio = staged, emitted = [],
              output_region = region \<rparr>
        | Inl (Thrown_BufferException msg) \<Rightarrow>
            (let error = Exception_new msg ERROR_ALLOC in
             case catch_Exception_do_nothing (Player_emit_error_callback player error) of
               Inl t \<Rightarrow>
                 \<lparr> returned = Inl t, audio = staged, emitted = [error],
                   output_region = region \<rparr>
             | Inr _ \<Rightarrow>
                 \<lparr> returned = Inr paContinue, audio = staged, emitted = [error],
                   output_region = region \<rparr>)
        | Inl (Thrown_Exception error) \<Rightarrow>
            (case catch_Exception_do_nothing (Player_emit_error_callback player error) of
               Inl t \<Rightarrow>
                 \<lparr> returned = Inl t, audio = staged, emitted = [error],
                   output_region = region \<rparr>
             | Inr _ \<Rightarrow>
                 \<lparr> returned = Inr paContinue, audio = staged, emitted = [error],
                   output_region = region \<rparr>)
        | Inl t \<Rightarrow>
            \<lparr> returned = Inl t, audio = staged, emitted = [], output_region = region \<rparr>)"

section \<open>Vocabulary of the properties\<close>

text \<open>
  A device index whose backend info is available and reports a nonzero channel count
  in the input direction, respectively the output direction.
\<close>

definition reports_input_channels :: "PortAudio \<Rightarrow> int \<Rightarrow> bool" where
  "reports_input_channels pa i =
     (case Pa_GetDeviceInfo pa i of
        None \<Rightarrow> False
      | Some info \<Rightarrow> maxInputChannels info \<noteq> 0)"

definition reports_output_channels :: "PortAudio \<Rightarrow> int \<Rightarrow> bool" where
  "reports_output_channels pa i =
     (case Pa_GetDeviceInfo pa i of
        None \<Rightarrow> False
      | Some info \<Rightarrow> maxOutputChannels info \<noteq> 0)"

text \<open>
  The size in bytes of one frame of interleaved signed 16-bit samples, as the spec
  defines it: two bytes for each channel.
\<close>

definition bytes_per_frame :: "8 word \<Rightarrow> nat" where
  "bytes_per_frame channels = 2 * unat channels"

section \<open>A concrete setting\<close>

text \<open>
  A backend with two devices, a microphone (index 0, the default input) and
  loudspeakers (index 1, the default output), on which every call succeeds; streams
  configured as \<open>recorder_player.unittest.cc\<close> configures them (one channel, 16000 Hz,
  1024 frames for each buffer), and variations of them.
\<close>

definition test_input_info :: PaDeviceInfo where
  "test_input_info =
     \<lparr> PaDeviceInfo.name = ''Microphone'', maxInputChannels = 2, maxOutputChannels = 0,
       defaultLowInputLatency = 1, defaultLowOutputLatency = 2,
       defaultHighInputLatency = 3, defaultHighOutputLatency = 4 \<rparr>"

definition test_output_info :: PaDeviceInfo where
  "test_output_info =
     \<lparr> PaDeviceInfo.name = ''Speakers'', maxInputChannels = 0, maxOutputChannels = 2,
       defaultLowInputLatency = 5, defaultLowOutputLatency = 6,
       defaultHighInputLatency = 7, defaultHighOutputLatency = 8 \<rparr>"

definition test_backend :: PortAudio where
  "test_backend =
     \<lparr> Pa_Initialize = paNoError,
       Pa_GetErrorText =
         (\<lambda>error. if error = paNoError then ''Success'' else ''PortAudio error''),
       Pa_GetDeviceCount = 2,
       Pa_GetDefaultInputDevice = 0,
       Pa_GetDefaultOutputDevice = 1,
       Pa_GetDeviceInfo =
         (\<lambda>i. if i = 0 then Some test_input_info
              else if i = 1 then Some test_output_info
              else None),
       Pa_IsFormatSupported = (\<lambda>input output rate. paNoError),
       Pa_OpenStream = (paNoError, 1),
       Pa_StartStream = (\<lambda>stream. paNoError),
       Pa_StopStream = (\<lambda>stream. paNoError),
       Pa_AbortStream = (\<lambda>stream. paNoError) \<rparr>"

text \<open>The same backend when it reports no default device (\<open>paNoDevice\<close>).\<close>

definition no_default_backend :: PortAudio where
  "no_default_backend =
     test_backend\<lparr> Pa_GetDefaultInputDevice := paNoDevice,
                   Pa_GetDefaultOutputDevice := paNoDevice \<rparr>"

text \<open>The same backend when its dry run rejects every format (\<open>paInvalidSampleRate\<close>).\<close>

definition rejecting_backend :: PortAudio where
  "rejecting_backend =
     test_backend\<lparr> Pa_IsFormatSupported := (\<lambda>input output rate. - 9997) \<rparr>"

definition heap_ok :: "int \<Rightarrow> string option" where
  "heap_ok i = None"

definition test_manager :: DeviceManager where
  "test_manager = \<lparr> m_input_device_lock = Mutex_ok, m_output_device_lock = Mutex_ok \<rparr>"

definition test_input_device :: InputDevice where
  "test_input_device =
     \<lparr> InputDevice.device_id = 0, InputDevice.name = ''Microphone'',
       InputDevice.default_low_latency = 1, InputDevice.defalut_high_latency = 3,
       InputDevice.is_default = True \<rparr>"

definition test_output_device :: OutputDevice where
  "test_output_device =
     \<lparr> OutputDevice.device_id = 1, OutputDevice.name = ''Speakers'',
       OutputDevice.default_low_latency = 6, OutputDevice.defalut_high_latency = 8,
       OutputDevice.is_default = True \<rparr>"

definition test_recorder_options :: RecorderOptions where
  "test_recorder_options =
     \<lparr> RecorderOptions.device = test_input_device,
       RecorderOptions.channel_count = 1,
       RecorderOptions.sample_rate = 16000,
       RecorderOptions.suggested_latency = 1,
       RecorderOptions.frame_pre_buffer = 1024 \<rparr>"

definition test_player_options :: PlayerOptions where
  "test_player_options =
     \<lparr> PlayerOptions.device = test_output_device,
       PlayerOptions.channel_count = 1,
       PlayerOptions.sample_rate = 16000,
       PlayerOptions.suggested_latency = 6,
       PlayerOptions.frame_pre_buffer = 1024 \<rparr>"

text \<open>
  A recorder and a player as their constructors leave them (both callback slots empty,
  not running), the same after \<open>start()\<close>, and the same configured for two channels.
\<close>

definition idle_recorder :: Recorder where
  "idle_recorder =
     \<lparr> Recorder.m_audio_callback = None,
       Recorder.m_audio_callback_lock = Mutex_ok,
       Recorder.m_error_callback = None,
       Recorder.m_error_callback_lock = Mutex_ok,
       Recorder.m_options = test_recorder_options,
       Recorder.m_pa_parameters =
         \<lparr> PaStreamParameters.device = 0, channelCount = 1, suggestedLatency = 1 \<rparr>,
       Recorder.m_stream = 1,
       Recorder.m_is_running = False \<rparr>"

definition running_recorder :: Recorder where
  "running_recorder = idle_recorder\<lparr> Recorder.m_is_running := True \<rparr>"

definition stereo_recorder :: Recorder where
  "stereo_recorder =
     running_recorder
       \<lparr> Recorder.m_audio_callback := Some (\<lambda>data. Inr ()),
         Recorder.m_options := test_recorder_options\<lparr> RecorderOptions.channel_count := 2 \<rparr>,
         Recorder.m_pa_parameters :=
           \<lparr> PaStreamParameters.device = 0, channelCount = 2, suggestedLatency = 1 \<rparr> \<rparr>"

definition idle_player :: Player where
  "idle_player =
     \<lparr> Player.m_audio_callback = None,
       Player.m_audio_callback_lock = Mutex_ok,
       Player.m_error_callback = None,
       Player.m_error_callback_lock = Mutex_ok,
       Player.m_options = test_player_options,
       Player.m_stream = 1,
       Player.m_is_running = False \<rparr>"

definition running_player :: Player where
  "running_player = idle_player\<lparr> Player.m_is_running := True \<rparr>"

definition stereo_player :: Player where
  "stereo_player =
     running_player
       \<lparr> Player.m_audio_callback := Some (\<lambda>data. Inr data),
         Player.m_options := test_player_options\<lparr> PlayerOptions.channel_count := 2 \<rparr> \<rparr>"

text \<open>
  A player whose audio closure fails with an exception of its own, and whose error
  closure returns.
\<close>

definition failing_player :: Player where
  "failing_player =
     running_player
       \<lparr> Player.m_audio_callback := Some (\<lambda>data. Inl (Thrown_exception ''queue is empty'')),
         Player.m_error_callback := Some (\<lambda>error. Inr ()) \<rparr>"

text \<open>
  A player whose audio closure throws an object that is not derived from
  \<open>std::exception\<close> (\<open>throw 42;\<close>), and whose error closure returns.
\<close>

definition foreign_player :: Player where
  "foreign_player =
     running_player
       \<lparr> Player.m_audio_callback := Some (\<lambda>data. Inl (Thrown_other ''42'')),
         Player.m_error_callback := Some (\<lambda>error. Inr ()) \<rparr>"

text \<open>A player whose closures return: the audio closure fills the buffer with ones.\<close>

definition served_player :: Player where
  "served_player =
     running_player
       \<lparr> Player.m_audio_callback := Some (\<lambda>data. Inr (map (\<lambda>b. 1) data)),
         Player.m_error_callback := Some (\<lambda>error. Inr ()) \<rparr>"

text \<open>A player whose error closure throws.\<close>

definition unheard_player :: Player where
  "unheard_player =
     running_player
       \<lparr> Player.m_error_callback := Some (\<lambda>error. Inl (Thrown_exception ''log is closed'')) \<rparr>"

text \<open>A recorder whose closures return, and one whose closures throw.\<close>

definition served_recorder :: Recorder where
  "served_recorder =
     running_recorder
       \<lparr> Recorder.m_audio_callback := Some (\<lambda>data. Inr ()),
         Recorder.m_error_callback := Some (\<lambda>error. Inr ()) \<rparr>"

definition failing_recorder :: Recorder where
  "failing_recorder =
     running_recorder
       \<lparr> Recorder.m_audio_callback := Some (\<lambda>data. Inl (Thrown_exception ''disk is full'')),
         Recorder.m_error_callback := Some (\<lambda>error. Inl (Thrown_exception ''log is closed'')) \<rparr>"

text \<open>A recorder whose audio closure fails with a \<open>std::system_error\<close>.\<close>

definition system_error_recorder :: Recorder where
  "system_error_recorder =
     running_recorder
       \<lparr> Recorder.m_audio_callback :=
           Some (\<lambda>data. Inl (Thrown_system_error ''Resource deadlock avoided'')) \<rparr>"

text \<open>
  The buffer utility when construction succeeds, when it throws its
  \<open>BufferException\<close>, and when it throws \<open>std::bad_alloc\<close>; memory holding zeros.
\<close>

definition env_ok :: buffer_env where
  "env_ok = \<lparr> construct_throws = None, fresh_bytes = (\<lambda>i. 0) \<rparr>"

definition env_buffer_exception :: buffer_env where
  "env_buffer_exception =
     \<lparr> construct_throws = Some (Thrown_BufferException ''Memory allocation was failed.''),
       fresh_bytes = (\<lambda>i. 0) \<rparr>"

definition env_bad_alloc :: buffer_env where
  "env_bad_alloc =
     \<lparr> construct_throws = Some (Thrown_bad_alloc ''std::bad_alloc''),
       fresh_bytes = (\<lambda>i. 0) \<rparr>"

definition zeros :: "nat \<Rightarrow> byte" where
  "zeros i = 0"

text \<open>An output region still holding what an earlier cycle left there.\<close>

definition stale :: "nat \<Rightarrow> byte" where
  "stale i = 255"

section \<open>Properties: stream state machine\<close>

text \<open>
  C1. For a recorder and for a player alike, \<open>start()\<close> on a running stream throws an
  exception with code \<open>ERROR_INVALIDOPERATION\<close> and leaves the object as it was (still
  running), and \<open>stop(forcibly)\<close> on a stream that is not running throws an exception
  with code \<open>ERROR_INVALIDOPERATION\<close> and leaves the object as it was (still idle),
  whatever the backend would answer.
\<close>

theorem start_stop_wrong_state:
  "(Recorder.m_is_running r \<longrightarrow>
      Recorder_start pa r =
        (Inl (Thrown_Exception
               (Exception_new ''The recorder was already running.'' ERROR_INVALIDOPERATION)),
         r)) \<and>
   (\<not> Recorder.m_is_running r \<longrightarrow>
      Recorder_stop pa r forcibly =
        (Inl (Thrown_Exception
               (Exception_new ''The recorder is not running.'' ERROR_INVALIDOPERATION)),
         r)) \<and>
   (Player.m_is_running p \<longrightarrow>
      Player_start pa p =
        (Inl (Thrown_Exception
               (Exception_new ''The player was already running.'' ERROR_INVALIDOPERATION)),
         p)) \<and>
   (\<not> Player.m_is_running p \<longrightarrow>
      Player_stop pa p forcibly =
        (Inl (Thrown_Exception
               (Exception_new ''The player is not running.'' ERROR_INVALIDOPERATION)),
         p))"
  by (simp add: Recorder_start_def Recorder_stop_def Player_start_def Player_stop_def)

text \<open>
  The four cases on the running and the idle recorder and player of the concrete
  setting, for a graceful and a forced stop.
\<close>

theorem start_stop_wrong_state_witness:
  "Recorder.m_is_running running_recorder \<and>
   fst (Recorder_start test_backend running_recorder) =
     Inl (Thrown_Exception
           (Exception_new ''The recorder was already running.'' ERROR_INVALIDOPERATION)) \<and>
   Recorder.m_is_running (snd (Recorder_start test_backend running_recorder)) \<and>
   \<not> Recorder.m_is_running idle_recorder \<and>
   fst (Recorder_stop test_backend idle_recorder False) =
     Inl (Thrown_Exception
           (Exception_new ''The recorder is not running.'' ERROR_INVALIDOPERATION)) \<and>
   \<not> Recorder.m_is_running (snd (Recorder_stop test_backend idle_recorder False)) \<and>
   Player.m_is_running running_player \<and>
   fst (Player_start test_backend running_player) =
     Inl (Thrown_Exception
           (Exception_new ''The player was already running.'' ERROR_INVALIDOPERATION)) \<and>
   Player.m_is_running (snd (Player_start test_backend running_player)) \<and>
   \<not> Player.m_is_running idle_player \<and>
   fst (Player_stop test_backend idle_player True) =
     Inl (Thrown_Exception
           (Exception_new ''The player is not running.'' ERROR_INVALIDOPERATION)) \<and>
   \<not> Player.m_is_running (snd (Player_stop test_backend idle_player True))"
proof -
  have rr: "Recorder.m_is_running running_recorder"
    by (simp add: running_recorder_def)
  have ri: "\<not> Recorder.m_is_running idle_recorder"
    by (simp add: idle_recorder_def)
  have pr: "Player.m_is_running running_player"
    by (simp add: running_player_def)
  have pi: "\<not> Player.m_is_running idle_player"
    by (simp add: idle_player_def)
  from rr ri pr pi
    start_stop_wrong_state [of running_recorder test_backend False running_player]
    start_stop_wrong_state [of idle_recorder test_backend False idle_player]
    start_stop_wrong_state [of idle_recorder test_backend True idle_player]
  show ?thesis by simp
qed

text \<open>From the right state, and when the backend call succeeds, the state changes.\<close>

lemma start_stop_right_state:
  "\<not> Recorder.m_is_running r \<Longrightarrow> Pa_StartStream pa (Recorder.m_stream r) = paNoError \<Longrightarrow>
     Recorder_start pa r = (Inr (), r\<lparr> Recorder.m_is_running := True \<rparr>)"
  "Recorder.m_is_running r \<Longrightarrow> Pa_StopStream pa (Recorder.m_stream r) = paNoError \<Longrightarrow>
     Recorder_stop pa r False = (Inr (), r\<lparr> Recorder.m_is_running := False \<rparr>)"
  "\<not> Player.m_is_running p \<Longrightarrow> Pa_StartStream pa (Player.m_stream p) = paNoError \<Longrightarrow>
     Player_start pa p = (Inr (), p\<lparr> Player.m_is_running := True \<rparr>)"
  "Player.m_is_running p \<Longrightarrow> Pa_AbortStream pa (Player.m_stream p) = paNoError \<Longrightarrow>
     Player_stop pa p True = (Inr (), p\<lparr> Player.m_is_running := False \<rparr>)"
  by (simp_all add: Recorder_start_def Recorder_stop_def Player_start_def Player_stop_def
        pacall_assert_def)

section \<open>Properties: the emit methods\<close>

text \<open>What the handlers of the emit methods make of what they receive.\<close>

lemma emit_catch_std:
  "derives_std_exception t \<Longrightarrow>
     emit_catch t =
       Thrown_Exception
         (Exception_new (std_what t)
            (if is_system_error t then ERROR_SYSTEMCALL else ERROR_CALLBACK))"
  by (cases t) simp_all

lemma emit_catch_cases:
  "(\<exists>e. emit_catch t = Thrown_Exception e) \<or> (\<exists>obj. emit_catch t = Thrown_other obj)"
  by (cases t) simp_all

text \<open>
  What an emit method throws is an \<open>xap::audioio::Exception\<close>, unless the closure
  threw an object that is not derived from \<open>std::exception\<close>.
\<close>

lemma Recorder_emit_audio_callback_throws:
  assumes "Recorder_emit_audio_callback r data = Inl t"
    and "\<forall>f obj. Recorder.m_audio_callback r = Some f \<longrightarrow> f data \<noteq> Inl (Thrown_other obj)"
  shows "\<exists>e. t = Thrown_Exception e"
proof (cases "Recorder.m_audio_callback_lock r")
  case Mutex_ok
  show ?thesis
  proof (cases "Recorder.m_audio_callback r")
    case None
    with Mutex_ok assms(1) show ?thesis
      by (auto simp: Recorder_emit_audio_callback_def)
  next
    case (Some f)
    with assms(2) have no_other: "\<forall>obj. f data \<noteq> Inl (Thrown_other obj)"
      by simp
    from Mutex_ok Some assms(1) obtain t' where "f data = Inl t'" and "t = emit_catch t'"
      by (cases "f data") (auto simp: Recorder_emit_audio_callback_def)
    with no_other show ?thesis
      by (cases t') auto
  qed
next
  case (Mutex_fails msg)
  with assms(1) show ?thesis
    by (auto simp: Recorder_emit_audio_callback_def)
qed

lemma Player_emit_audio_callback_throws:
  assumes "Player_emit_audio_callback p data = Inl t"
    and "\<forall>f obj. Player.m_audio_callback p = Some f \<longrightarrow> f data \<noteq> Inl (Thrown_other obj)"
  shows "\<exists>e. t = Thrown_Exception e"
proof (cases "Player.m_audio_callback_lock p")
  case Mutex_ok
  show ?thesis
  proof (cases "Player.m_audio_callback p")
    case None
    with Mutex_ok assms(1) show ?thesis
      by (auto simp: Player_emit_audio_callback_def)
  next
    case (Some f)
    with assms(2) have no_other: "\<forall>obj. f data \<noteq> Inl (Thrown_other obj)"
      by simp
    from Mutex_ok Some assms(1) obtain t' where "f data = Inl t'" and "t = emit_catch t'"
      by (cases "f data") (auto simp: Player_emit_audio_callback_def)
    with no_other show ?thesis
      by (cases t') auto
  qed
next
  case (Mutex_fails msg)
  with assms(1) show ?thesis
    by (auto simp: Player_emit_audio_callback_def)
qed

text \<open>
  A call of \<open>emit_error_callback\<close> inside \<open>try { ... } catch (Exception &) { }\<close> comes
  back, unless the error closure throws an object that is not derived from
  \<open>std::exception\<close>.
\<close>

lemma catch_after_emit_catch:
  assumes "\<forall>obj. x \<noteq> Inl (Thrown_other obj)"
  shows "catch_Exception_do_nothing (map_sum emit_catch id x) = Inr ()"
proof (cases x)
  case (Inl t)
  with assms show ?thesis
    by (cases t) simp_all
next
  case (Inr u)
  then show ?thesis by simp
qed

lemma Recorder_guarded_emit:
  assumes "\<forall>f obj. Recorder.m_error_callback r = Some f \<longrightarrow> f e \<noteq> Inl (Thrown_other obj)"
  shows "catch_Exception_do_nothing (Recorder_emit_error_callback r e) = Inr ()"
  unfolding Recorder_emit_error_callback_def
proof (rule catch_after_emit_catch)
  from assms
  show "\<forall>obj. (case lock_guard (Recorder.m_error_callback_lock r) of
                 Inl t \<Rightarrow> Inl t
               | Inr _ \<Rightarrow> invoke (Recorder.m_error_callback r) e) \<noteq> Inl (Thrown_other obj)"
    by (cases "Recorder.m_error_callback_lock r"; cases "Recorder.m_error_callback r") auto
qed

lemma Player_guarded_emit:
  assumes "\<forall>f obj. Player.m_error_callback p = Some f \<longrightarrow> f e \<noteq> Inl (Thrown_other obj)"
  shows "catch_Exception_do_nothing (Player_emit_error_callback p e) = Inr ()"
  unfolding Player_emit_error_callback_def
proof (rule catch_after_emit_catch)
  from assms
  show "\<forall>obj. (case lock_guard (Player.m_error_callback_lock p) of
                 Inl t \<Rightarrow> Inl t
               | Inr _ \<Rightarrow> invoke (Player.m_error_callback p) e) \<noteq> Inl (Thrown_other obj)"
    by (cases "Player.m_error_callback_lock p"; cases "Player.m_error_callback p") auto
qed

text \<open>
  Replacing a closure is last-writer-wins: after \<open>set_audio_callback\<close> returns, the
  audio emit calls the new closure.
\<close>

lemma set_audio_callback_then_emit:
  assumes "Recorder.m_audio_callback_lock r = Mutex_ok"
    and "Player.m_audio_callback_lock p = Mutex_ok"
  shows "fst (Recorder_set_audio_callback r (Some f)) = Inr () \<and>
         Recorder_emit_audio_callback (snd (Recorder_set_audio_callback r (Some f))) data =
           map_sum emit_catch id (f data)"
    and "fst (Player_set_audio_callback p (Some g)) = Inr () \<and>
         Player_emit_audio_callback (snd (Player_set_audio_callback p (Some g))) data =
           map_sum emit_catch id (g data)"
  using assms
  by (simp_all add: Recorder_set_audio_callback_def Recorder_emit_audio_callback_def
        Player_set_audio_callback_def Player_emit_audio_callback_def)

text \<open>
  C3, as amended. Each of the four emit methods, once it has taken the mutex of its
  own slot, does the following. On an empty slot it throws an exception with code
  \<open>ERROR_CALLBACK\<close> carrying the text of \<open>std::bad_function_call\<close>: it is not a silent
  no-op. When the registered closure returns, the method returns. When the
  registered closure throws an object derived from \<open>std::exception\<close> that is not a
  \<open>std::system_error\<close>, the method throws an exception with code \<open>ERROR_CALLBACK\<close>
  carrying the text of that object. Nothing is stated about a closure that throws a
  \<open>std::system_error\<close>, or an object that is not derived from \<open>std::exception\<close>.
\<close>

theorem emit_callback_outcomes:
  "(Recorder.m_audio_callback_lock r = Mutex_ok \<longrightarrow>
      (Recorder.m_audio_callback r = None \<longrightarrow>
         Recorder_emit_audio_callback r data =
           Inl (Thrown_Exception (Exception_new bad_function_call_what ERROR_CALLBACK))) \<and>
      (Recorder.m_audio_callback r = Some ra \<and> ra data = Inr () \<longrightarrow>
         Recorder_emit_audio_callback r data = Inr ()) \<and>
      (Recorder.m_audio_callback r = Some ra \<and> ra data = Inl t \<and>
       derives_std_exception t \<and> \<not> is_system_error t \<longrightarrow>
         Recorder_emit_audio_callback r data =
           Inl (Thrown_Exception (Exception_new (std_what t) ERROR_CALLBACK)))) \<and>
   (Recorder.m_error_callback_lock r = Mutex_ok \<longrightarrow>
      (Recorder.m_error_callback r = None \<longrightarrow>
         Recorder_emit_error_callback r e =
           Inl (Thrown_Exception (Exception_new bad_function_call_what ERROR_CALLBACK))) \<and>
      (Recorder.m_error_callback r = Some re \<and> re e = Inr () \<longrightarrow>
         Recorder_emit_error_callback r e = Inr ()) \<and>
      (Recorder.m_error_callback r = Some re \<and> re e = Inl t \<and>
       derives_std_exception t \<and> \<not> is_system_error t \<longrightarrow>
         Recorder_emit_error_callback r e =
           Inl (Thrown_Exception (Exception_new (std_what t) ERROR_CALLBACK)))) \<and>
   (Player.m_audio_callback_lock p = Mutex_ok \<longrightarrow>
      (Player.m_audio_callback p = None \<longrightarrow>
         Player_emit_audio_callback p data =
           Inl (Thrown_Exception (Exception_new bad_function_call_what ERROR_CALLBACK))) \<and>
      (Player.m_audio_callback p = Some pa \<and> pa data = Inr filled \<longrightarrow>
         Player_emit_audio_callback p data = Inr filled) \<and>
      (Player.m_audio_callback p = Some pa \<and> pa data = Inl t \<and>
       derives_std_exception t \<and> \<not> is_system_error t \<longrightarrow>
         Player_emit_audio_callback p data =
           Inl (Thrown_Exception (Exception_new (std_what t) ERROR_CALLBACK)))) \<and>
   (Player.m_error_callback_lock p = Mutex_ok \<longrightarrow>
      (Player.m_error_callback p = None \<longrightarrow>
         Player_emit_error_callback p e =
           Inl (Thrown_Exception (Exception_new bad_function_call_what ERROR_CALLBACK))) \<and>
      (Player.m_error_callback p = Some pe \<and> pe e = Inr () \<longrightarrow>
         Player_emit_error_callback p e = Inr ()) \<and>
      (Player.m_error_callback p = Some pe \<and> pe e = Inl t \<and>
       derives_std_exception t \<and> \<not> is_system_error t \<longrightarrow>
         Player_emit_error_callback p e =
           Inl (Thrown_Exception (Exception_new (std_what t) ERROR_CALLBACK))))"
  by (simp add: Recorder_emit_audio_callback_def Recorder_emit_error_callback_def
        Player_emit_audio_callback_def Player_emit_error_callback_def emit_catch_std)

text \<open>
  Each of the twelve cases at work: the recorder and the player as constructed (empty
  slots), with closures that return, and with closures that throw an exception of
  their own.
\<close>

theorem emit_callback_outcomes_witness:
  "Recorder.m_audio_callback_lock running_recorder = Mutex_ok \<and>
   Recorder.m_error_callback_lock running_recorder = Mutex_ok \<and>
   Recorder.m_audio_callback running_recorder = None \<and>
   Recorder.m_error_callback running_recorder = None \<and>
   Recorder_emit_audio_callback running_recorder [1, 2] =
     Inl (Thrown_Exception (Exception_new bad_function_call_what ERROR_CALLBACK)) \<and>
   Recorder_emit_error_callback running_recorder (Exception_new ''lost'' ERROR_ALLOC) =
     Inl (Thrown_Exception (Exception_new bad_function_call_what ERROR_CALLBACK)) \<and>
   Player.m_audio_callback_lock running_player = Mutex_ok \<and>
   Player.m_error_callback_lock running_player = Mutex_ok \<and>
   Player.m_audio_callback running_player = None \<and>
   Player.m_error_callback running_player = None \<and>
   Player_emit_audio_callback running_player [1, 2] =
     Inl (Thrown_Exception (Exception_new bad_function_call_what ERROR_CALLBACK)) \<and>
   Player_emit_error_callback running_player (Exception_new ''lost'' ERROR_ALLOC) =
     Inl (Thrown_Exception (Exception_new bad_function_call_what ERROR_CALLBACK)) \<and>
   Recorder.m_audio_callback_lock served_recorder = Mutex_ok \<and>
   Recorder.m_error_callback_lock served_recorder = Mutex_ok \<and>
   Recorder_emit_audio_callback served_recorder [1, 2] = Inr () \<and>
   Recorder_emit_error_callback served_recorder (Exception_new ''lost'' ERROR_ALLOC) =
     Inr () \<and>
   Player.m_audio_callback_lock served_player = Mutex_ok \<and>
   Player.m_error_callback_lock served_player = Mutex_ok \<and>
   Player_emit_audio_callback served_player [1, 2] = Inr [1, 1] \<and>
   Player_emit_error_callback served_player (Exception_new ''lost'' ERROR_ALLOC) = Inr () \<and>
   Recorder.m_audio_callback_lock failing_recorder = Mutex_ok \<and>
   Recorder.m_error_callback_lock failing_recorder = Mutex_ok \<and>
   derives_std_exception (Thrown_exception ''disk is full'') \<and>
   \<not> is_system_error (Thrown_exception ''disk is full'') \<and>
   Recorder_emit_audio_callback failing_recorder [1, 2] =
     Inl (Thrown_Exception (Exception_new ''disk is full'' ERROR_CALLBACK)) \<and>
   Recorder_emit_error_callback failing_recorder (Exception_new ''lost'' ERROR_ALLOC) =
     Inl (Thrown_Exception (Exception_new ''log is closed'' ERROR_CALLBACK)) \<and>
   Player.m_audio_callback_lock failing_player = Mutex_ok \<and>
   Player_emit_audio_callback failing_player [1, 2] =
     Inl (Thrown_Exception (Exception_new ''queue is empty'' ERROR_CALLBACK)) \<and>
   Player.m_error_callback_lock unheard_player = Mutex_ok \<and>
   Player_emit_error_callback unheard_player (Exception_new ''lost'' ERROR_ALLOC) =
     Inl (Thrown_Exception (Exception_new ''log is closed'' ERROR_CALLBACK))"
proof -
  let ?e = "Exception_new ''lost'' ERROR_ALLOC"
  let ?full = "Thrown_exception ''disk is full''"
  let ?closed = "Thrown_exception ''log is closed''"
  let ?empty = "Thrown_exception ''queue is empty''"
  note objects =
    running_recorder_def idle_recorder_def running_player_def idle_player_def
    served_recorder_def served_player_def failing_recorder_def failing_player_def
    unheard_player_def
  have slots:
    "Recorder.m_audio_callback_lock running_recorder = Mutex_ok"
    "Recorder.m_error_callback_lock running_recorder = Mutex_ok"
    "Recorder.m_audio_callback running_recorder = None"
    "Recorder.m_error_callback running_recorder = None"
    "Player.m_audio_callback_lock running_player = Mutex_ok"
    "Player.m_error_callback_lock running_player = Mutex_ok"
    "Player.m_audio_callback running_player = None"
    "Player.m_error_callback running_player = None"
    "Recorder.m_audio_callback_lock served_recorder = Mutex_ok"
    "Recorder.m_error_callback_lock served_recorder = Mutex_ok"
    "Recorder.m_audio_callback served_recorder = Some (\<lambda>data. Inr ())"
    "Recorder.m_error_callback served_recorder = Some (\<lambda>error. Inr ())"
    "Player.m_audio_callback_lock served_player = Mutex_ok"
    "Player.m_error_callback_lock served_player = Mutex_ok"
    "Player.m_audio_callback served_player = Some (\<lambda>data. Inr (map (\<lambda>b. 1) data))"
    "Player.m_error_callback served_player = Some (\<lambda>error. Inr ())"
    "Recorder.m_audio_callback_lock failing_recorder = Mutex_ok"
    "Recorder.m_error_callback_lock failing_recorder = Mutex_ok"
    "Recorder.m_audio_callback failing_recorder = Some (\<lambda>data. Inl ?full)"
    "Recorder.m_error_callback failing_recorder = Some (\<lambda>error. Inl ?closed)"
    "Player.m_audio_callback_lock failing_player = Mutex_ok"
    "Player.m_audio_callback failing_player = Some (\<lambda>data. Inl ?empty)"
    "Player.m_error_callback_lock unheard_player = Mutex_ok"
    "Player.m_error_callback unheard_player = Some (\<lambda>error. Inl ?closed)"
    by (simp_all add: objects)
  note empty = emit_callback_outcomes
    [where r = running_recorder and p = running_player and data = "[1, 2]" and e = ?e]
  note served = emit_callback_outcomes
    [where r = served_recorder and p = served_player and data = "[1, 2]" and e = ?e
       and ra = "\<lambda>data. Inr ()" and re = "\<lambda>error. Inr ()"
       and pa = "\<lambda>data. Inr (map (\<lambda>b. 1) data)" and pe = "\<lambda>error. Inr ()"
       and filled = "[1, 1]"]
  note audio_fails = emit_callback_outcomes
    [where r = failing_recorder and p = failing_player and data = "[1, 2]" and e = ?e
       and ra = "\<lambda>data. Inl ?full" and t = ?full]
  note error_fails = emit_callback_outcomes
    [where r = failing_recorder and p = unheard_player and data = "[1, 2]" and e = ?e
       and re = "\<lambda>error. Inl ?closed" and pe = "\<lambda>error. Inl ?closed" and t = ?closed]
  note player_fails = emit_callback_outcomes
    [where p = failing_player and data = "[1, 2]"
       and pa = "\<lambda>data. Inl ?empty" and t = ?empty]
  from slots empty served audio_fails error_fails player_fails
  show ?thesis by simp
qed

text \<open>
  The claim as the spec states it fails: on the recorder as its constructor leaves it
  (both slots empty) emitting audio throws, and so does emitting an error on such a
  player; and an object that is not derived from \<open>std::exception\<close>, thrown by the
  closure, leaves the emit without being wrapped.
\<close>

theorem emit_empty_slot_counterexample:
  "Recorder_emit_audio_callback running_recorder [] =
     Inl (Thrown_Exception (Exception_new bad_function_call_what ERROR_CALLBACK)) \<and>
   Player_emit_error_callback running_player (Exception_new ''lost'' ERROR_ALLOC) =
     Inl (Thrown_Exception (Exception_new bad_function_call_what ERROR_CALLBACK)) \<and>
   Player_emit_audio_callback foreign_player [] = Inl (Thrown_other ''42'')"
  by (simp add: Recorder_emit_audio_callback_def Player_emit_error_callback_def
        Player_emit_audio_callback_def idle_recorder_def idle_player_def
        running_recorder_def running_player_def foreign_player_def)

text \<open>
  The two cases that the amended statement leaves out, as the code has them. A
  \<open>std::system_error\<close> thrown by the closure meets the handler meant for the mutex and
  is given the code \<open>ERROR_SYSTEMCALL\<close>; an object that is not derived from
  \<open>std::exception\<close> meets no handler.
\<close>

lemma emit_closure_system_error:
  "Recorder_emit_audio_callback system_error_recorder [] =
     Inl (Thrown_Exception (Exception_new ''Resource deadlock avoided'' ERROR_SYSTEMCALL))"
  by (simp add: Recorder_emit_audio_callback_def system_error_recorder_def
        running_recorder_def idle_recorder_def)

lemma emit_closure_other_object:
  assumes "Player.m_audio_callback_lock p = Mutex_ok"
    and "Player.m_audio_callback p = Some f"
    and "f data = Inl (Thrown_other obj)"
  shows "Player_emit_audio_callback p data = Inl (Thrown_other obj)"
  using assms by (simp add: Player_emit_audio_callback_def)

section \<open>Properties: the trampolines\<close>

text \<open>
  Where the capture trampoline does contain every exception: whenever constructing
  the buffer throws neither a \<open>BufferException\<close> nor an object outside the
  \<open>std::exception\<close> hierarchy, and neither closure throws such an object. What the
  audio emit throws is then an \<open>xap::audioio::Exception\<close>, whose handler calls the
  error emit inside a \<open>try\<close>.
\<close>

lemma record_callback_continues:
  assumes "\<forall>msg. construct_throws env \<noteq> Some (Thrown_BufferException msg)"
    and "\<forall>obj. construct_throws env \<noteq> Some (Thrown_other obj)"
    and "\<forall>f data obj. Recorder.m_audio_callback recorder = Some f \<longrightarrow>
           f data \<noteq> Inl (Thrown_other obj)"
    and "\<forall>f e obj. Recorder.m_error_callback recorder = Some f \<longrightarrow>
           f e \<noteq> Inl (Thrown_other obj)"
  shows "returned (xap_pa_record_callback env input_buffer frames_per_buffer recorder) =
           Inr paContinue"
proof -
  have guarded: "catch_Exception_do_nothing (Recorder_emit_error_callback recorder e) = Inr ()"
    for e
    using assms(4) by (intro Recorder_guarded_emit) blast
  show ?thesis
  proof (cases "construct_throws env")
    case None
    show ?thesis
    proof (cases "Recorder_emit_audio_callback recorder
                    (map input_buffer [0..<unat (frames_per_buffer * 2)])")
      case (Inl t)
      with assms(3) obtain e where "t = Thrown_Exception e"
        using Recorder_emit_audio_callback_throws by blast
      with None Inl show ?thesis
        by (simp add: xap_pa_record_callback_def Buffer_copy_of_def Let_def guarded)
    next
      case (Inr u)
      with None show ?thesis
        by (simp add: xap_pa_record_callback_def Buffer_copy_of_def Let_def)
    qed
  next
    case (Some t)
    with assms(1,2) show ?thesis
      by (cases t)
         (simp_all add: xap_pa_record_callback_def Buffer_copy_of_def Let_def guarded)
  qed
qed

text \<open>
  Where the playback trampoline contains every exception: whenever constructing the
  buffer succeeds, or throws a \<open>BufferException\<close> or an \<open>xap::audioio::Exception\<close>, and
  neither closure throws an object outside the \<open>std::exception\<close> hierarchy.
\<close>

lemma play_callback_continues:
  assumes "construct_throws env = None \<or>
           (\<exists>msg. construct_throws env = Some (Thrown_BufferException msg)) \<or>
           (\<exists>e. construct_throws env = Some (Thrown_Exception e))"
    and "\<forall>f data obj. Player.m_audio_callback player = Some f \<longrightarrow>
           f data \<noteq> Inl (Thrown_other obj)"
    and "\<forall>f e obj. Player.m_error_callback player = Some f \<longrightarrow>
           f e \<noteq> Inl (Thrown_other obj)"
  shows "returned (xap_pa_play_callback env output_buffer frames_per_buffer player) =
           Inr paContinue"
proof -
  have guarded: "catch_Exception_do_nothing (Player_emit_error_callback player e) = Inr ()"
    for e
    using assms(3) by (intro Player_guarded_emit) blast
  show ?thesis
  proof (cases "construct_throws env")
    case None
    show ?thesis
    proof (cases "Player_emit_audio_callback player
                    (map (fresh_bytes env) [0..<unat (frames_per_buffer * 2)])")
      case (Inl t)
      with assms(2) obtain e where "t = Thrown_Exception e"
        using Player_emit_audio_callback_throws by blast
      with None Inl show ?thesis
        by (simp add: xap_pa_play_callback_def Buffer_sized_def Let_def guarded)
    next
      case (Inr filled)
      with None show ?thesis
        by (simp add: xap_pa_play_callback_def Buffer_sized_def Let_def)
    qed
  next
    case (Some t)
    with assms(1) show ?thesis
      by (auto simp: xap_pa_play_callback_def Buffer_sized_def Let_def guarded)
  qed
qed

text \<open>
  C2. The claim: every call of a trampoline returns \<open>paContinue\<close>, no exception leaves
  it, and a failure of the redirection to the error callback is dropped. The code
  breaks it in the capture trampoline: its handler for \<open>BufferException\<close> calls
  \<open>emit_error_callback\<close> outside any \<open>try\<close>. On a running recorder whose error slot is
  empty (as the constructor leaves it), a cycle in which the buffer cannot be
  constructed hands the \<open>ERROR_ALLOC\<close> exception to the error emit, which throws, and
  that second exception leaves the trampoline instead of a status.
\<close>

theorem record_callback_lets_exception_escape:
  "returned (xap_pa_record_callback env_buffer_exception zeros 1024 running_recorder) =
     Inl (Thrown_Exception (Exception_new bad_function_call_what ERROR_CALLBACK)) \<and>
   emitted (xap_pa_record_callback env_buffer_exception zeros 1024 running_recorder) =
     [Exception_new ''Memory allocation was failed.'' ERROR_ALLOC]"
  by (simp add: xap_pa_record_callback_def Buffer_copy_of_def env_buffer_exception_def
        Recorder_emit_error_callback_def running_recorder_def idle_recorder_def Let_def)

text \<open>The playback trampoline on the same cycle drops the second exception.\<close>

lemma play_callback_drops_second_failure:
  "returned (xap_pa_play_callback env_buffer_exception zeros 1024 running_player) =
     Inr paContinue \<and>
   emitted (xap_pa_play_callback env_buffer_exception zeros 1024 running_player) =
     [Exception_new ''Memory allocation was failed.'' ERROR_ALLOC]"
  by (simp add: xap_pa_play_callback_def Buffer_sized_def env_buffer_exception_def
        Player_emit_error_callback_def running_player_def idle_player_def Let_def)

text \<open>
  In the capture trampoline an exception derived from \<open>std::exception\<close> that is
  neither a \<open>BufferException\<close> nor an \<open>xap::audioio::Exception\<close> is passed to the error
  emit with code \<open>ERROR_UNEXPECTED\<close>.
\<close>

lemma record_callback_unexpected:
  assumes "construct_throws env = Some t"
    and "derives_std_exception t"
    and "\<forall>msg. t \<noteq> Thrown_BufferException msg"
    and "\<forall>e. t \<noteq> Thrown_Exception e"
  shows "emitted (xap_pa_record_callback env input_buffer frames_per_buffer recorder) =
           [Exception_new (std_what t) ERROR_UNEXPECTED]"
  using assms
  by (cases t)
     (simp_all add: xap_pa_record_callback_def Buffer_copy_of_def Let_def
        split: sum.splits)

text \<open>
  C8. The claim: in both trampolines, an exception that is neither an audio-io
  exception nor a buffer exception reaches the error callback with code
  \<open>ERROR_UNEXPECTED\<close>. The code breaks it in the playback trampoline, which has no
  \<open>catch (std::exception &)\<close> handler: when constructing the staging buffer throws
  \<open>std::bad_alloc\<close>, the exception leaves the playback trampoline and nothing is passed
  to the error emit, while the capture trampoline on the same cycle passes an
  \<open>ERROR_UNEXPECTED\<close> exception to the error emit and returns \<open>paContinue\<close>.
\<close>

theorem play_callback_unexpected_escapes:
  "returned (xap_pa_play_callback env_bad_alloc zeros 1024 running_player) =
     Inl (Thrown_bad_alloc ''std::bad_alloc'') \<and>
   emitted (xap_pa_play_callback env_bad_alloc zeros 1024 running_player) = [] \<and>
   returned (xap_pa_record_callback env_bad_alloc zeros 1024 running_recorder) =
     Inr paContinue \<and>
   emitted (xap_pa_record_callback env_bad_alloc zeros 1024 running_recorder) =
     [Exception_new ''std::bad_alloc'' ERROR_UNEXPECTED]"
  by (simp add: xap_pa_play_callback_def xap_pa_record_callback_def Buffer_sized_def
        Buffer_copy_of_def env_bad_alloc_def Let_def Recorder_emit_error_callback_def
        running_recorder_def idle_recorder_def)

text \<open>
  C9, as amended. In a playback cycle in which the registered audio closure, called
  on the staged buffer, fails, whatever it throws: the memory behind
  \<open>output_buffer\<close> is left exactly as the backend provided it, no copy being made.
  When what the closure threw is derived from \<open>std::exception\<close>, the failure is
  passed to \<open>emit_error_callback\<close>, as one exception carrying the text of what the
  closure threw.
\<close>

theorem play_callback_closure_fails:
  assumes "construct_throws env = None"
    and "Player.m_audio_callback_lock player = Mutex_ok"
    and "Player.m_audio_callback player = Some f"
    and "f (map (fresh_bytes env) [0..<unat (frames_per_buffer * 2)]) = Inl t"
  shows
    "output_region (xap_pa_play_callback env output_buffer frames_per_buffer player) =
       Some output_buffer \<and>
     (derives_std_exception t \<longrightarrow>
        (\<exists>code. emitted (xap_pa_play_callback env output_buffer frames_per_buffer player) =
                  [Exception_new (std_what t) code]))"
  using assms
  by (cases t)
     (auto simp: xap_pa_play_callback_def Buffer_sized_def Player_emit_audio_callback_def
        Let_def split: sum.splits)

text \<open>
  The player of the concrete setting whose audio closure throws an exception of its
  own, on 1024 frames and an output region that holds 255 in every byte. The staged
  buffer holds zeros, so a copy would have changed the region.
\<close>

theorem play_callback_closure_fails_witness:
  "construct_throws env_ok = None \<and>
   Player.m_audio_callback_lock failing_player = Mutex_ok \<and>
   Player.m_audio_callback failing_player =
     Some (\<lambda>data. Inl (Thrown_exception ''queue is empty'')) \<and>
   derives_std_exception (Thrown_exception ''queue is empty'') \<and>
   output_region (xap_pa_play_callback env_ok stale 1024 failing_player) = Some stale \<and>
   emitted (xap_pa_play_callback env_ok stale 1024 failing_player) =
     [Exception_new ''queue is empty'' ERROR_CALLBACK] \<and>
   memcpy stale (map (fresh_bytes env_ok) [0..<2048]) 2048 \<noteq> Some stale"
proof -
  have a: "construct_throws env_ok = None"
    by (simp add: env_ok_def)
  have b: "Player.m_audio_callback_lock failing_player = Mutex_ok"
    by (simp add: failing_player_def running_player_def idle_player_def)
  have c: "Player.m_audio_callback failing_player =
             Some (\<lambda>data. Inl (Thrown_exception ''queue is empty''))"
    by (simp add: failing_player_def)
  have d: "(\<lambda>data :: Buffer. Inl (Thrown_exception ''queue is empty'') :: thrown + Buffer)
             (map (fresh_bytes env_ok) [0..<unat (1024 * 2 :: 64 word)]) =
           Inl (Thrown_exception ''queue is empty'')"
    by simp
  have region:
    "output_region (xap_pa_play_callback env_ok stale 1024 failing_player) = Some stale"
    using play_callback_closure_fails [OF a b c d, of stale] by simp
  have error:
    "emitted (xap_pa_play_callback env_ok stale 1024 failing_player) =
       [Exception_new ''queue is empty'' ERROR_CALLBACK]"
    by (simp add: xap_pa_play_callback_def Buffer_sized_def Player_emit_audio_callback_def
          Let_def a b c split: sum.splits)
  have "memcpy stale (map (fresh_bytes env_ok) [0..<2048]) 2048 = Some g \<Longrightarrow> g 0 = 0" for g
    by (auto simp: memcpy_def env_ok_def split: if_splits)
  then have copy: "memcpy stale (map (fresh_bytes env_ok) [0..<2048]) 2048 \<noteq> Some stale"
    by (auto simp: stale_def)
  from a b c region error copy show ?thesis by simp
qed

text \<open>
  The claim as the spec states it fails: when the audio closure throws an object that
  is not derived from \<open>std::exception\<close>, no handler of the audio emit or of the
  playback trampoline catches it. Nothing is passed to the error emit, although the
  error closure is registered, and the object leaves the trampoline.
\<close>

theorem play_callback_other_object_counterexample:
  "Player.m_audio_callback foreign_player = Some (\<lambda>data. Inl (Thrown_other ''42'')) \<and>
   emitted (xap_pa_play_callback env_ok stale 1024 foreign_player) = [] \<and>
   returned (xap_pa_play_callback env_ok stale 1024 foreign_player) =
     Inl (Thrown_other ''42'') \<and>
   output_region (xap_pa_play_callback env_ok stale 1024 foreign_player) = Some stale"
  by (simp add: xap_pa_play_callback_def Buffer_sized_def Player_emit_audio_callback_def
        Let_def env_ok_def foreign_player_def running_player_def idle_player_def)

text \<open>
  The exception passed on when the closure throws an object derived from
  \<open>std::exception\<close> is the one that the audio emit made of it, and the trampoline
  returns \<open>paContinue\<close> unless the error closure throws an object outside the
  hierarchy.
\<close>

lemma play_callback_std_failure_exactly:
  assumes "construct_throws env = None"
    and "Player.m_audio_callback_lock player = Mutex_ok"
    and "Player.m_audio_callback player = Some f"
    and "f (map (fresh_bytes env) [0..<unat (frames_per_buffer * 2)]) = Inl t"
    and "derives_std_exception t"
    and "\<forall>g e obj. Player.m_error_callback player = Some g \<longrightarrow> g e \<noteq> Inl (Thrown_other obj)"
  shows
    "emitted (xap_pa_play_callback env output_buffer frames_per_buffer player) =
       [Exception_new (std_what t)
          (if is_system_error t then ERROR_SYSTEMCALL else ERROR_CALLBACK)] \<and>
     returned (xap_pa_play_callback env output_buffer frames_per_buffer player) =
       Inr paContinue"
proof -
  have guarded: "catch_Exception_do_nothing (Player_emit_error_callback player e) = Inr ()"
    for e
    using assms(6) by (intro Player_guarded_emit) blast
  from assms(1-5) show ?thesis
    by (simp add: xap_pa_play_callback_def Buffer_sized_def Player_emit_audio_callback_def
          Let_def emit_catch_std guarded)
qed

text \<open>When the closure returns, the filled buffer is copied to the output region.\<close>

lemma play_callback_closure_returns:
  assumes "construct_throws env = None"
    and "Player.m_audio_callback_lock player = Mutex_ok"
    and "Player.m_audio_callback player = Some f"
    and "f (map (fresh_bytes env) [0..<unat (frames_per_buffer * 2)]) = Inr filled"
  shows
    "output_region (xap_pa_play_callback env output_buffer frames_per_buffer player) =
       memcpy output_buffer filled (unat (frames_per_buffer * 2)) \<and>
     emitted (xap_pa_play_callback env output_buffer frames_per_buffer player) = [] \<and>
     returned (xap_pa_play_callback env output_buffer frames_per_buffer player) =
       Inr paContinue"
  using assms
  by (simp add: xap_pa_play_callback_def Buffer_sized_def Player_emit_audio_callback_def
        Let_def)

text \<open>
  The length of every buffer passed to the audio emit: twice the number of frames,
  in 64-bit arithmetic, whatever the channel count of the stream.
\<close>

lemma record_callback_staged_length:
  "\<forall>data \<in> set (audio (xap_pa_record_callback env input_buffer frames_per_buffer recorder)).
     length data = unat (frames_per_buffer * 2)"
  by (auto simp: xap_pa_record_callback_def Buffer_copy_of_def Let_def
           split: option.splits sum.splits thrown.splits)

lemma play_callback_staged_length:
  "\<forall>data \<in> set (audio (xap_pa_play_callback env output_buffer frames_per_buffer player)).
     length data = unat (frames_per_buffer * 2)"
  by (auto simp: xap_pa_play_callback_def Buffer_sized_def Let_def
           split: option.splits sum.splits thrown.splits)

text \<open>
  C4. The claim: the buffer of a cycle has \<open>frames_per_buffer\<close> times
  \<open>bytes_per_frame\<close> bytes, a frame being two bytes for each channel. The code sizes
  the buffer as \<open>frames_per_buffer * 2U\<close> and never reads the channel count it passed
  to the backend: on streams configured for two channels, a cycle of 1024 frames hands
  a buffer of 2048 bytes to the audio emit, in capture and in playback, where the
  claim asks for 4096.
\<close>

theorem staged_buffer_ignores_channel_count:
  "map length (audio (xap_pa_record_callback env_ok zeros 1024 stereo_recorder)) = [2048] \<and>
   map length (audio (xap_pa_play_callback env_ok zeros 1024 stereo_player)) = [2048] \<and>
   RecorderOptions.channel_count (Recorder.m_options stereo_recorder) = 2 \<and>
   PlayerOptions.channel_count (Player.m_options stereo_player) = 2 \<and>
   1024 * bytes_per_frame 2 = 4096"
  by (simp add: xap_pa_record_callback_def xap_pa_play_callback_def Buffer_copy_of_def
        Buffer_sized_def env_ok_def Let_def stereo_recorder_def stereo_player_def
        running_recorder_def running_player_def idle_recorder_def idle_player_def
        Recorder_emit_audio_callback_def Player_emit_audio_callback_def
        bytes_per_frame_def)

text \<open>For one channel, and a frame count below \<open>2^63\<close>, the two sizes agree.\<close>

lemma staged_length_one_channel:
  fixes frames_per_buffer :: "64 word"
  assumes "unat frames_per_buffer < 2 ^ 63"
  shows "unat (frames_per_buffer * 2) = unat frames_per_buffer * bytes_per_frame 1"
  using assms by (simp add: bytes_per_frame_def unat_word_ariths)

section \<open>Properties: construction\<close>

text \<open>
  When the backend is initialised and its dry run answers an error, both constructors
  throw \<open>ERROR_UNSUPPORTED\<close> after two backend calls, none of them \<open>Pa_OpenStream\<close>.
  Five of the six loading methods of the factories pass that exception on; the
  handler of \<open>RecorderFactory::load_unique_pointer\<close> turns it into \<open>ERROR_ALLOC\<close>.
\<close>

lemma format_rejected_unsupported:
  assumes "Pa_Initialize pa = paNoError"
    and "\<forall>input output rate. Pa_IsFormatSupported pa input output rate = error"
    and "error \<noteq> paNoError"
  shows "Recorder_ctor pa ro =
           (Inl (Thrown_Exception (Exception_new (Pa_GetErrorText pa error) ERROR_UNSUPPORTED)),
            [Call_Initialize, Call_IsFormatSupported])"
    and "Player_ctor pa po =
           (Inl (Thrown_Exception (Exception_new (Pa_GetErrorText pa error) ERROR_UNSUPPORTED)),
            [Call_Initialize, Call_IsFormatSupported])"
    and "RecorderFactory_load_shared_pointer None pa ro = Recorder_ctor pa ro"
    and "RecorderFactory_new_instance None pa ro = Recorder_ctor pa ro"
    and "PlayerFactory_load_unique_pointer None pa po = Player_ctor pa po"
    and "PlayerFactory_load_shared_pointer None pa po = Player_ctor pa po"
    and "PlayerFactory_new_instance None pa po = Player_ctor pa po"
    and "RecorderFactory_load_unique_pointer None pa ro =
           (Inl (Thrown_Exception (Exception_new (Pa_GetErrorText pa error) ERROR_ALLOC)),
            [Call_Initialize, Call_IsFormatSupported])"
  using assms
  by (simp_all add: Recorder_ctor_def Player_ctor_def pacall_assert_def Let_def
        RecorderFactory_load_shared_pointer_def RecorderFactory_new_instance_def
        PlayerFactory_load_unique_pointer_def PlayerFactory_load_shared_pointer_def
        PlayerFactory_new_instance_def RecorderFactory_load_unique_pointer_def
        new_Recorder_def new_Player_def what_def Exception_new_def)

text \<open>
  C5. The claim: whenever the dry run rejects the format, the caller receives
  \<open>ERROR_UNSUPPORTED\<close>, through the constructors and the factories alike. The code
  breaks it in \<open>RecorderFactory::load_unique_pointer\<close>, whose handler is
  \<open>catch (xap::audioio::Exception &)\<close> where its siblings have
  \<open>catch (std::bad_alloc &)\<close>: on the backend that rejects every format, with the
  options of the unit test, the caller receives \<open>ERROR_ALLOC\<close>, while the constructor
  itself throws \<open>ERROR_UNSUPPORTED\<close>. No stream is opened either way.
\<close>

theorem recorder_factory_masks_unsupported:
  "RecorderFactory_load_unique_pointer None rejecting_backend test_recorder_options =
     (Inl (Thrown_Exception (Exception_new ''PortAudio error'' ERROR_ALLOC)),
      [Call_Initialize, Call_IsFormatSupported]) \<and>
   Recorder_ctor rejecting_backend test_recorder_options =
     (Inl (Thrown_Exception (Exception_new ''PortAudio error'' ERROR_UNSUPPORTED)),
      [Call_Initialize, Call_IsFormatSupported]) \<and>
   ERROR_ALLOC \<noteq> ERROR_UNSUPPORTED"
  by (simp add: RecorderFactory_load_unique_pointer_def new_Recorder_def Recorder_ctor_def
        pacall_assert_def rejecting_backend_def test_backend_def paNoError_def Let_def
        what_def Exception_new_def ERROR_ALLOC_def ERROR_UNSUPPORTED_def)

text \<open>On the backend of the concrete setting the constructor gives the idle recorder.\<close>

lemma Recorder_ctor_test_backend:
  "fst (Recorder_ctor test_backend test_recorder_options) =
     Inr idle_recorder \<and>
   snd (Recorder_ctor test_backend test_recorder_options) =
     [Call_Initialize, Call_IsFormatSupported, Call_OpenStream]"
  by (simp add: Recorder_ctor_def pacall_assert_def test_backend_def paNoError_def Let_def
        idle_recorder_def test_recorder_options_def test_input_device_def)

section \<open>Properties: device enumeration\<close>

declare load_all_input_devices_loop.simps [simp del]
declare load_all_output_devices_loop.simps [simp del]

lemma upto_step: "i < n \<Longrightarrow> [i..n - 1] = i # [i + 1..n - 1]"
  by (simp add: upto_rec1)

text \<open>
  The loops, by computation induction: the indices appended to \<open>rst\<close> are those from
  \<open>i\<close> on that report channels, in order.
\<close>

lemma input_loop_ids:
  "load_all_input_devices_loop pa heap n d i rst = Inr out \<Longrightarrow>
     map InputDevice.device_id out =
       map InputDevice.device_id rst @ filter (reports_input_channels pa) [i..n - 1]"
proof (induction pa heap n d i rst rule: load_all_input_devices_loop.induct)
  case (1 pa heap n d i rst)
  show ?case
  proof (cases "i < n")
    case False
    with "1.prems" show ?thesis
      by (simp add: load_all_input_devices_loop.simps)
  next
    case True
    note step = upto_step [OF True]
    show ?thesis
    proof (cases "Pa_GetDeviceInfo pa i")
      case None
      with True "1.prems" "1.IH"(1) show ?thesis
        by (simp add: load_all_input_devices_loop.simps [of pa heap n d i rst] step
              reports_input_channels_def)
    next
      case (Some info)
      show ?thesis
      proof (cases "maxInputChannels info = 0")
        case z: True
        with True Some "1.prems" "1.IH"(2) show ?thesis
          by (simp add: load_all_input_devices_loop.simps [of pa heap n d i rst] step
                reports_input_channels_def)
      next
        case nz: False
        show ?thesis
        proof (cases "heap i")
          case hn: None
          with True Some nz "1.prems" "1.IH"(3) show ?thesis
            by (simp add: load_all_input_devices_loop.simps [of pa heap n d i rst] step
                  reports_input_channels_def)
        next
          case (Some msg)
          with True \<open>Pa_GetDeviceInfo pa i = Some info\<close> nz "1.prems" show ?thesis
            by (simp add: load_all_input_devices_loop.simps [of pa heap n d i rst])
        qed
      qed
    qed
  qed
qed

lemma output_loop_ids:
  "load_all_output_devices_loop pa heap n d i rst = Inr out \<Longrightarrow>
     map OutputDevice.device_id out =
       map OutputDevice.device_id rst @ filter (reports_output_channels pa) [i..n - 1]"
proof (induction pa heap n d i rst rule: load_all_output_devices_loop.induct)
  case (1 pa heap n d i rst)
  from "1.prems" "1.IH" show ?case
    by (subst (asm) load_all_output_devices_loop.simps)
       (auto split: if_splits option.splits simp: upto_step reports_output_channels_def)
qed

text \<open>An entry is marked default exactly when its index is the default index.\<close>

lemma input_loop_default:
  "load_all_input_devices_loop pa heap n d i rst = Inr out \<Longrightarrow>
     \<forall>dev \<in> set rst. InputDevice.is_default dev = (InputDevice.device_id dev = d) \<Longrightarrow>
     \<forall>dev \<in> set out. InputDevice.is_default dev = (InputDevice.device_id dev = d)"
proof (induction pa heap n d i rst rule: load_all_input_devices_loop.induct)
  case (1 pa heap n d i rst)
  from "1.prems" "1.IH" show ?case
    by (subst (asm) load_all_input_devices_loop.simps)
       (auto split: if_splits option.splits)
qed

lemma output_loop_default:
  "load_all_output_devices_loop pa heap n d i rst = Inr out \<Longrightarrow>
     \<forall>dev \<in> set rst. OutputDevice.is_default dev = (OutputDevice.device_id dev = d) \<Longrightarrow>
     \<forall>dev \<in> set out. OutputDevice.is_default dev = (OutputDevice.device_id dev = d)"
proof (induction pa heap n d i rst rule: load_all_output_devices_loop.induct)
  case (1 pa heap n d i rst)
  from "1.prems" "1.IH" show ?case
    by (subst (asm) load_all_output_devices_loop.simps)
       (auto split: if_splits option.splits)
qed

text \<open>
  With both mutexes free, a device count that is not negative, default indices not
  below \<open>paNoDevice\<close> and no allocation failure, the enumerations return.
\<close>

lemma input_loop_returns:
  "\<exists>out. load_all_input_devices_loop pa (\<lambda>j. None) n d i rst = Inr out"
proof (induction pa "\<lambda>j :: int. None :: string option" n d i rst
       rule: load_all_input_devices_loop.induct)
  case (1 pa n d i rst)
  then show ?case
    by (subst load_all_input_devices_loop.simps) (auto split: option.splits)
qed

lemma output_loop_returns:
  "\<exists>out. load_all_output_devices_loop pa (\<lambda>j. None) n d i rst = Inr out"
proof (induction pa "\<lambda>j :: int. None :: string option" n d i rst
       rule: load_all_output_devices_loop.induct)
  case (1 pa n d i rst)
  then show ?case
    by (subst load_all_output_devices_loop.simps) (auto split: option.splits)
qed

lemma enumeration_returns:
  assumes "m_input_device_lock this = Mutex_ok" and "m_output_device_lock this = Mutex_ok"
    and "0 \<le> Pa_GetDeviceCount pa"
    and "paNoDevice \<le> Pa_GetDefaultInputDevice pa"
    and "paNoDevice \<le> Pa_GetDefaultOutputDevice pa"
  shows "\<exists>ins. load_all_input_devices this pa (\<lambda>j. None) = Inr ins"
    and "\<exists>outs. load_all_output_devices this pa (\<lambda>j. None) = Inr outs"
proof -
  from input_loop_returns
  obtain ins where "load_all_input_devices_loop pa (\<lambda>j. None) (Pa_GetDeviceCount pa)
      (Pa_GetDefaultInputDevice pa) 0 [] = Inr ins"
    by blast
  with assms show "\<exists>ins. load_all_input_devices this pa (\<lambda>j. None) = Inr ins"
    by (simp add: load_all_input_devices_def Let_def)
  from output_loop_returns
  obtain outs where "load_all_output_devices_loop pa (\<lambda>j. None) (Pa_GetDeviceCount pa)
      (Pa_GetDefaultOutputDevice pa) 0 [] = Inr outs"
    by blast
  with assms show "\<exists>outs. load_all_output_devices this pa (\<lambda>j. None) = Inr outs"
    by (simp add: load_all_output_devices_def Let_def)
qed

lemma count_in_distinct:
  "distinct (map f xs) \<Longrightarrow>
     length (filter (\<lambda>x. f x = a) xs) = (if a \<in> f ` set xs then 1 else 0)"
  by (induction xs) auto

lemma load_all_input_devices_Inr:
  assumes "load_all_input_devices this pa heap = Inr rst"
  shows "load_all_input_devices_loop pa heap (Pa_GetDeviceCount pa)
           (Pa_GetDefaultInputDevice pa) 0 [] = Inr rst"
  using assms
  by (auto simp: load_all_input_devices_def Let_def map_sum_def
           split: sum.splits if_splits)

lemma load_all_output_devices_Inr:
  assumes "load_all_output_devices this pa heap = Inr rst"
  shows "load_all_output_devices_loop pa heap (Pa_GetDeviceCount pa)
           (Pa_GetDefaultOutputDevice pa) 0 [] = Inr rst"
  using assms
  by (auto simp: load_all_output_devices_def Let_def map_sum_def
           split: sum.splits if_splits)

lemma input_enumeration:
  assumes "load_all_input_devices this pa heap = Inr rst"
  shows "map InputDevice.device_id rst =
           filter (reports_input_channels pa) [0..Pa_GetDeviceCount pa - 1]"
    and "\<forall>dev \<in> set rst.
           InputDevice.is_default dev = (InputDevice.device_id dev = Pa_GetDefaultInputDevice pa)"
    and "length (filter InputDevice.is_default rst) =
           (if Pa_GetDefaultInputDevice pa \<in> InputDevice.device_id ` set rst then 1 else 0)"
proof -
  note loop = load_all_input_devices_Inr [OF assms]
  show ids: "map InputDevice.device_id rst =
           filter (reports_input_channels pa) [0..Pa_GetDeviceCount pa - 1]"
    using input_loop_ids [OF loop] by simp
  show dflt: "\<forall>dev \<in> set rst.
           InputDevice.is_default dev = (InputDevice.device_id dev = Pa_GetDefaultInputDevice pa)"
    using input_loop_default [OF loop] by simp
  have "distinct (map InputDevice.device_id rst)"
    unfolding ids by simp
  from count_in_distinct [OF this, of "Pa_GetDefaultInputDevice pa"]
  have "length (filter (\<lambda>dev. InputDevice.device_id dev = Pa_GetDefaultInputDevice pa) rst) =
          (if Pa_GetDefaultInputDevice pa \<in> InputDevice.device_id ` set rst then 1 else 0)" .
  moreover have "filter InputDevice.is_default rst =
      filter (\<lambda>dev. InputDevice.device_id dev = Pa_GetDefaultInputDevice pa) rst"
    using dflt by (intro filter_cong) auto
  ultimately show "length (filter InputDevice.is_default rst) =
           (if Pa_GetDefaultInputDevice pa \<in> InputDevice.device_id ` set rst then 1 else 0)"
    by simp
qed

lemma output_enumeration:
  assumes "load_all_output_devices this pa heap = Inr rst"
  shows "map OutputDevice.device_id rst =
           filter (reports_output_channels pa) [0..Pa_GetDeviceCount pa - 1]"
    and "\<forall>dev \<in> set rst.
           OutputDevice.is_default dev =
             (OutputDevice.device_id dev = Pa_GetDefaultOutputDevice pa)"
    and "length (filter OutputDevice.is_default rst) =
           (if Pa_GetDefaultOutputDevice pa \<in> OutputDevice.device_id ` set rst then 1 else 0)"
proof -
  note loop = load_all_output_devices_Inr [OF assms]
  show ids: "map OutputDevice.device_id rst =
           filter (reports_output_channels pa) [0..Pa_GetDeviceCount pa - 1]"
    using output_loop_ids [OF loop] by simp
  show dflt: "\<forall>dev \<in> set rst.
           OutputDevice.is_default dev =
             (OutputDevice.device_id dev = Pa_GetDefaultOutputDevice pa)"
    using output_loop_default [OF loop] by simp
  have "distinct (map OutputDevice.device_id rst)"
    unfolding ids by simp
  from count_in_distinct [OF this, of "Pa_GetDefaultOutputDevice pa"]
  have "length (filter (\<lambda>dev. OutputDevice.device_id dev = Pa_GetDefaultOutputDevice pa) rst) =
          (if Pa_GetDefaultOutputDevice pa \<in> OutputDevice.device_id ` set rst then 1 else 0)" .
  moreover have "filter OutputDevice.is_default rst =
      filter (\<lambda>dev. OutputDevice.device_id dev = Pa_GetDefaultOutputDevice pa) rst"
    using dflt by (intro filter_cong) auto
  ultimately show "length (filter OutputDevice.is_default rst) =
           (if Pa_GetDefaultOutputDevice pa \<in> OutputDevice.device_id ` set rst then 1 else 0)"
    by simp
qed

text \<open>
  C6, as amended. When an enumeration returns a sequence, its device ids are exactly
  the indices below the device count whose info is available and reports a nonzero
  channel count in the requested direction, in increasing order; an entry is marked
  default exactly when its id is the default index that the backend reports for that
  direction; so the sequence has one entry marked default when that index is among
  its ids, and none otherwise.
\<close>

theorem enumeration_content:
  "(load_all_input_devices this pa heap = Inr ins \<longrightarrow>
      map InputDevice.device_id ins =
        filter (reports_input_channels pa) [0..Pa_GetDeviceCount pa - 1] \<and>
      (\<forall>dev \<in> set ins.
         InputDevice.is_default dev =
           (InputDevice.device_id dev = Pa_GetDefaultInputDevice pa)) \<and>
      length (filter InputDevice.is_default ins) =
        (if Pa_GetDefaultInputDevice pa \<in> InputDevice.device_id ` set ins then 1 else 0)) \<and>
   (load_all_output_devices this pa heap = Inr outs \<longrightarrow>
      map OutputDevice.device_id outs =
        filter (reports_output_channels pa) [0..Pa_GetDeviceCount pa - 1] \<and>
      (\<forall>dev \<in> set outs.
         OutputDevice.is_default dev =
           (OutputDevice.device_id dev = Pa_GetDefaultOutputDevice pa)) \<and>
      length (filter OutputDevice.is_default outs) =
        (if Pa_GetDefaultOutputDevice pa \<in> OutputDevice.device_id ` set outs then 1 else 0))"
  using input_enumeration [of this pa heap ins] output_enumeration [of this pa heap outs]
  by blast

text \<open>What the two enumerations return on the backend of the concrete setting.\<close>

lemma test_backend_inputs:
  "load_all_input_devices test_manager test_backend heap_ok =
     Inr [\<lparr> InputDevice.device_id = 0, InputDevice.name = ''Microphone'',
            InputDevice.default_low_latency = 2, InputDevice.defalut_high_latency = 4,
            InputDevice.is_default = True \<rparr>]"
  by (simp add: load_all_input_devices_def load_all_input_devices_loop.simps
        test_manager_def test_backend_def heap_ok_def test_input_info_def
        test_output_info_def paNoDevice_def)

lemma test_backend_outputs:
  "load_all_output_devices test_manager test_backend heap_ok =
     Inr [\<lparr> OutputDevice.device_id = 1, OutputDevice.name = ''Speakers'',
            OutputDevice.default_low_latency = 6, OutputDevice.defalut_high_latency = 8,
            OutputDevice.is_default = True \<rparr>]"
  by (simp add: load_all_output_devices_def load_all_output_devices_loop.simps
        test_manager_def test_backend_def heap_ok_def test_input_info_def
        test_output_info_def paNoDevice_def)

text \<open>
  The amended statement on that backend: one input device (index 0) and one output
  device (index 1), each the default of its direction.
\<close>

theorem enumeration_content_witness:
  "load_all_input_devices test_manager test_backend heap_ok =
     Inr [\<lparr> InputDevice.device_id = 0, InputDevice.name = ''Microphone'',
            InputDevice.default_low_latency = 2, InputDevice.defalut_high_latency = 4,
            InputDevice.is_default = True \<rparr>] \<and>
   filter (reports_input_channels test_backend) [0..Pa_GetDeviceCount test_backend - 1] =
     [0] \<and>
   Pa_GetDefaultInputDevice test_backend = 0 \<and>
   load_all_output_devices test_manager test_backend heap_ok =
     Inr [\<lparr> OutputDevice.device_id = 1, OutputDevice.name = ''Speakers'',
            OutputDevice.default_low_latency = 6, OutputDevice.defalut_high_latency = 8,
            OutputDevice.is_default = True \<rparr>] \<and>
   filter (reports_output_channels test_backend) [0..Pa_GetDeviceCount test_backend - 1] =
     [1] \<and>
   Pa_GetDefaultOutputDevice test_backend = 1"
proof -
  have defaults:
    "Pa_GetDefaultInputDevice test_backend = 0" "Pa_GetDefaultOutputDevice test_backend = 1"
    by (simp_all add: test_backend_def)
  from enumeration_content [of test_manager test_backend heap_ok
      "[\<lparr> InputDevice.device_id = 0, InputDevice.name = ''Microphone'',
          InputDevice.default_low_latency = 2, InputDevice.defalut_high_latency = 4,
          InputDevice.is_default = True \<rparr>]"
      "[\<lparr> OutputDevice.device_id = 1, OutputDevice.name = ''Speakers'',
          OutputDevice.default_low_latency = 6, OutputDevice.defalut_high_latency = 8,
          OutputDevice.is_default = True \<rparr>]"]
    test_backend_inputs test_backend_outputs defaults
  show ?thesis by simp
qed

text \<open>
  The claim as the spec states it fails: the code accepts \<open>paNoDevice\<close> as the default
  index (it throws only below it), and then no entry is marked default.
\<close>

theorem enumeration_no_default_counterexample:
  "load_all_input_devices test_manager no_default_backend heap_ok =
     Inr [\<lparr> InputDevice.device_id = 0, InputDevice.name = ''Microphone'',
            InputDevice.default_low_latency = 2, InputDevice.defalut_high_latency = 4,
            InputDevice.is_default = False \<rparr>] \<and>
   load_all_output_devices test_manager no_default_backend heap_ok =
     Inr [\<lparr> OutputDevice.device_id = 1, OutputDevice.name = ''Speakers'',
            OutputDevice.default_low_latency = 6, OutputDevice.defalut_high_latency = 8,
            OutputDevice.is_default = False \<rparr>]"
  by (simp add: load_all_input_devices_def load_all_output_devices_def
        load_all_input_devices_loop.simps load_all_output_devices_loop.simps
        test_manager_def no_default_backend_def test_backend_def heap_ok_def
        test_input_info_def test_output_info_def paNoDevice_def)

text \<open>
  C7. The claim: the latency fields of an input device hold the input-direction
  latencies of the backend. The code breaks it in \<open>load_all_input_devices\<close>, which
  copies \<open>defaultLowOutputLatency\<close> and \<open>defaultHighOutputLatency\<close>: for the microphone
  of the concrete setting (input latencies 1 and 3, output latencies 2 and 4) the
  enumeration returns 2 and 4.
\<close>

theorem input_latency_from_output_fields:
  "load_all_input_devices test_manager test_backend heap_ok =
     Inr [\<lparr> InputDevice.device_id = 0, InputDevice.name = ''Microphone'',
            InputDevice.default_low_latency = 2, InputDevice.defalut_high_latency = 4,
            InputDevice.is_default = True \<rparr>] \<and>
   Pa_GetDeviceInfo test_backend 0 = Some test_input_info \<and>
   defaultLowInputLatency test_input_info = 1 \<and>
   defaultHighInputLatency test_input_info = 3 \<and>
   defaultLowOutputLatency test_input_info = 2 \<and>
   defaultHighOutputLatency test_input_info = 4"
  by (simp add: load_all_input_devices_def load_all_input_devices_loop.simps
        test_manager_def test_backend_def heap_ok_def test_input_info_def
        test_output_info_def paNoDevice_def)

text \<open>\<open>load_default_input_device\<close> does copy the input-direction latencies.\<close>

lemma default_input_latency:
  assumes "load_default_input_device this pa heap = Inr dev"
  shows "\<exists>info. Pa_GetDeviceInfo pa (Pa_GetDefaultInputDevice pa) = Some info \<and>
           InputDevice.default_low_latency dev = defaultLowInputLatency info \<and>
           InputDevice.defalut_high_latency dev = defaultHighInputLatency info \<and>
           InputDevice.device_id dev = Pa_GetDefaultInputDevice pa \<and>
           InputDevice.is_default dev"
  using assms
  by (auto simp: load_default_input_device_def Let_def map_sum_def
           split: sum.splits if_splits option.splits)

lemma default_input_device_test_backend:
  "load_default_input_device test_manager test_backend heap_ok = Inr test_input_device"
  by (simp add: load_default_input_device_def test_manager_def test_backend_def
        heap_ok_def test_input_info_def test_input_device_def paNoDevice_def)

section \<open>Properties of the error taxonomy\<close>

text \<open>The nine codes are pairwise distinct.\<close>

lemma error_codes_distinct:
  "distinct [ERROR_PARAMETER, ERROR_PORTAUDIOCALL, ERROR_ALLOC, ERROR_SYSTEMCALL,
             ERROR_INVALIDOPERATION, ERROR_UNSUPPORTED, ERROR_CALLBACK, ERROR_NODEVICE,
             ERROR_UNEXPECTED]"
  by (simp add: ERROR_PARAMETER_def ERROR_PORTAUDIOCALL_def ERROR_ALLOC_def
        ERROR_SYSTEMCALL_def ERROR_INVALIDOPERATION_def ERROR_UNSUPPORTED_def
        ERROR_CALLBACK_def ERROR_NODEVICE_def ERROR_UNEXPECTED_def)

text \<open>
  An \<open>xap::audioio::Exception\<close> thrown by the audio emit reaches the error emit of
  its trampoline as it is, message and code.
\<close>

lemma record_callback_redirects_unchanged:
  assumes "construct_throws env = None"
    and "Recorder_emit_audio_callback recorder
           (map input_buffer [0..<unat (frames_per_buffer * 2)]) = Inl (Thrown_Exception e)"
  shows "emitted (xap_pa_record_callback env input_buffer frames_per_buffer recorder) = [e]"
  using assms
  by (simp add: xap_pa_record_callback_def Buffer_copy_of_def Let_def split: sum.splits)

lemma play_callback_redirects_unchanged:
  assumes "construct_throws env = None"
    and "Player_emit_audio_callback player
           (map (fresh_bytes env) [0..<unat (frames_per_buffer * 2)]) = Inl (Thrown_Exception e)"
  shows "emitted (xap_pa_play_callback env output_buffer frames_per_buffer player) = [e]"
  using assms
  by (simp add: xap_pa_play_callback_def Buffer_sized_def Let_def split: sum.splits)

text \<open>
  C10. An exception constructed from a message and a code reports that message through
  \<open>what()\<close> and that code through \<open>get_code()\<close>, and the copy constructor preserves
  both (the copy is in fact equal to its source).
\<close>

theorem Exception_roundtrip:
  "what (Exception_new m c) = m \<and> get_code (Exception_new m c) = c \<and>
   what (Exception_copy (Exception_new m c)) = m \<and>
   get_code (Exception_copy (Exception_new m c)) = c \<and>
   what (Exception_copy e) = what e \<and> get_code (Exception_copy e) = get_code e \<and>
   Exception_copy e = e"
  by (simp add: what_def get_code_def Exception_new_def Exception_copy_def)

end
